theory Spec2Isabelle
  imports Main "HOL-Library.Sublist"
begin

section \<open>Errors, service descriptor, host model\<close>

text \<open>
  The package-level error values of \<open>helper.go\<close>. Every error that comes from the
  operating system or from a library call (file creation, chmod, a failing subprocess,
  a template or pattern that does not parse) is an \<open>ExternalError\<close> carrying its message;
  the code passes such errors through unchanged.
\<close>

datatype error =
    ErrUnsupportedSystem
  | ErrRootPrivileges
  | ErrAlreadyInstalled
  | ErrNotInstalled
  | ErrAlreadyRunning
  | ErrAlreadyStopped
  | ExternalError string

text \<open>The struct embedded in every backend type.\<close>

record ServiceProperties =
  name :: string
  description :: string
  arguments :: "string list"
  dependencies :: "string list"

text \<open>
  The value handed to \<open>Template.Execute\<close>: the anonymous struct of each \<open>Install\<close>,
  as its fields in declaration order. A field is a string or a slice of strings.
\<close>

datatype tvalue = StringV string | SliceV "string list"

type_synonym tdata = "(string \<times> tvalue) list"

text \<open>
  What the code obtains from outside the package. A subprocess is given the commands
  run before it and its own argument vector, and yields its standard output and its
  error (\<open>None\<close> is Go's \<open>nil\<close>): \<open>Cmd.Output\<close> returns both, \<open>Cmd.Run\<close>
  only the error. The file-system calls fail for the paths the host says; the
  \<open>text/template\<close> and \<open>regexp\<close> engines are taken from the host as well.
  \<open>template_Execute\<close> returns the bytes written to the file and the error.
\<close>

record env =
  exec_Command :: "string list list \<Rightarrow> string list \<Rightarrow> string \<times> error option"
  exec_LookPath :: "string \<Rightarrow> error + string"
  os_Executable :: "string \<times> error option"
  os_Create_err :: "string \<Rightarrow> error option"
  os_Chmod_err :: "string \<Rightarrow> error option"
  os_Symlink_err :: "string \<Rightarrow> error option"
  os_Remove_err :: "string \<Rightarrow> error option"
  os_Open_err :: "string \<Rightarrow> error option"
  template_Parse_err :: "string \<Rightarrow> error option"
  template_Execute :: "string \<Rightarrow> tdata \<Rightarrow> string \<times> error option"
  regexp_MatchString :: "string \<Rightarrow> string \<Rightarrow> error + bool"
  regexp_Compile_err :: "string \<Rightarrow> error option"
  regexp_Find :: "string \<Rightarrow> string \<Rightarrow> string"

text \<open>
  The state the operations change: the file table (path to content, for the paths on
  which \<open>os.Stat\<close> succeeds), the subprocesses run so far, and the five package-level
  template variables.
\<close>

record world =
  files :: "string \<rightharpoonup> string"
  cmdlog :: "string list list"
  systemDConfig :: string
  upstatConfig :: string
  systemVConfig :: string
  propertyList :: string
  bsdConfig :: string

text \<open>A call either returns its results or panics.\<close>

datatype 'a outcome = Returns 'a | Panics

definition success :: string where
  "success = replicate 5 (CHR 0x09) @ ''[  '' @ [CHR 0x1B] @ ''[32mOK'' @ [CHR 0x1B] @ ''[0m  ]''"

definition failed :: string where
  "failed = replicate 5 (CHR 0x09) @ ''['' @ [CHR 0x1B] @ ''[31mFAILED'' @ [CHR 0x1B] @ ''[0m]''"

section \<open>Library functions used by the package\<close>

text \<open>\<open>strings.Join\<close>.\<close>

fun Join :: "string list \<Rightarrow> string \<Rightarrow> string" where
  "Join [] sep = []"
| "Join [x] sep = x"
| "Join (x # y # ys) sep = x @ sep @ Join (y # ys) sep"

text \<open>
  \<open>strings.TrimSpace\<close> on the bytes of a string: it removes leading and trailing
  runes that \<open>unicode.IsSpace\<close> accepts. \<open>space_runes\<close> lists their UTF-8 encodings
  (tab, newline, vertical tab, form feed, carriage return, space, U+0085, U+00A0,
  U+1680, U+2000 to U+200A, U+2028, U+2029, U+202F, U+205F, U+3000).
\<close>

definition space_runes :: "string list" where
  "space_runes =
     [[CHR 0x09], [CHR 0x0A], [CHR 0x0B], [CHR 0x0C], [CHR 0x0D], [CHR 0x20],
      [CHR 0xC2, CHR 0x85], [CHR 0xC2, CHR 0xA0], [CHR 0xE1, CHR 0x9A, CHR 0x80],
      [CHR 0xE2, CHR 0x80, CHR 0x80], [CHR 0xE2, CHR 0x80, CHR 0x81],
      [CHR 0xE2, CHR 0x80, CHR 0x82], [CHR 0xE2, CHR 0x80, CHR 0x83],
      [CHR 0xE2, CHR 0x80, CHR 0x84], [CHR 0xE2, CHR 0x80, CHR 0x85],
      [CHR 0xE2, CHR 0x80, CHR 0x86], [CHR 0xE2, CHR 0x80, CHR 0x87],
      [CHR 0xE2, CHR 0x80, CHR 0x88], [CHR 0xE2, CHR 0x80, CHR 0x89],
      [CHR 0xE2, CHR 0x80, CHR 0x8A], [CHR 0xE2, CHR 0x80, CHR 0xA8],
      [CHR 0xE2, CHR 0x80, CHR 0xA9], [CHR 0xE2, CHR 0x80, CHR 0xAF],
      [CHR 0xE2, CHR 0x81, CHR 0x9F], [CHR 0xE3, CHR 0x80, CHR 0x80]]"

function strip_left :: "string list \<Rightarrow> string \<Rightarrow> string" where
  "strip_left ps s =
     (case List.find (\<lambda>p. p \<noteq> [] \<and> prefix p s) ps of
        None \<Rightarrow> s
      | Some p \<Rightarrow> strip_left ps (drop (length p) s))"
  by pat_completeness auto
termination
proof (relation "measure (\<lambda>(ps, s). length s)")
  show "wf (measure (\<lambda>(ps, s). length s))" by simp
next
  fix ps :: "string list" and s p :: string
  assume "List.find (\<lambda>p. p \<noteq> [] \<and> prefix p s) ps = Some p"
  then have "p \<noteq> []" and "prefix p s"
    by (auto simp: find_Some_iff)
  then have "0 < length p" and "length p \<le> length s"
    by (auto simp: prefix_def)
  then have "length s - length p < length s"
    by arith
  then show "((ps, drop (length p) s), (ps, s)) \<in> measure (\<lambda>(ps, s). length s)"
    by simp
qed

definition TrimSpace :: "string \<Rightarrow> string" where
  "TrimSpace s = rev (strip_left (map rev space_runes) (rev (strip_left space_runes s)))"

text \<open>
  \<open>strconv.ParseUint(s, 10, bitSize)\<close>: a non-empty string of decimal digits (no
  sign, no underscore), whose value fits in \<open>bitSize\<close> bits; anything else is an error.
\<close>

definition is_digit :: "char \<Rightarrow> bool" where
  "is_digit c = (48 \<le> (of_char c :: nat) \<and> (of_char c :: nat) \<le> 57)"

definition decimal :: "string \<Rightarrow> nat" where
  "decimal s = foldl (\<lambda>n c. 10 * n + ((of_char c :: nat) - 48)) 0 s"

definition ParseUint :: "string \<Rightarrow> nat \<Rightarrow> error + nat" where
  "ParseUint s bitSize =
     (if s = [] \<or> \<not> list_all is_digit s then Inl (ExternalError ''invalid syntax'')
      else if 2 ^ bitSize \<le> decimal s then Inl (ExternalError ''value out of range'')
      else Inr (decimal s))"

section \<open>The host calls, with their effect on the state\<close>

definition exec_Output :: "env \<Rightarrow> world \<Rightarrow> string list \<Rightarrow> (string \<times> error option) \<times> world" where
  "exec_Output e w argv =
     (exec_Command e (cmdlog w) argv, w\<lparr>cmdlog := cmdlog w @ [argv]\<rparr>)"

definition exec_Run :: "env \<Rightarrow> world \<Rightarrow> string list \<Rightarrow> error option \<times> world" where
  "exec_Run e w argv =
     (snd (exec_Command e (cmdlog w) argv), w\<lparr>cmdlog := cmdlog w @ [argv]\<rparr>)"

definition os_Stat :: "world \<Rightarrow> string \<Rightarrow> error option" where
  "os_Stat w p =
     (if files w p \<noteq> None then None else Some (ExternalError ''no such file or directory''))"

definition os_Create :: "env \<Rightarrow> world \<Rightarrow> string \<Rightarrow> error option \<times> world" where
  "os_Create e w p =
     (case os_Create_err e p of
        Some err \<Rightarrow> (Some err, w)
      | None \<Rightarrow> (None, w\<lparr>files := (files w)(p \<mapsto> [])\<rparr>))"

definition os_Chmod :: "env \<Rightarrow> world \<Rightarrow> string \<Rightarrow> error option" where
  "os_Chmod e w p =
     (if files w p = None then Some (ExternalError ''no such file or directory'')
      else os_Chmod_err e p)"

definition os_Symlink :: "env \<Rightarrow> world \<Rightarrow> string \<Rightarrow> string \<Rightarrow> error option \<times> world" where
  "os_Symlink e w oldname newname =
     (if files w newname \<noteq> None then (Some (ExternalError ''file exists''), w)
      else case os_Symlink_err e newname of
        Some err \<Rightarrow> (Some err, w)
      | None \<Rightarrow> (None, w\<lparr>files := (files w)(newname \<mapsto> oldname)\<rparr>))"

definition os_Remove :: "env \<Rightarrow> world \<Rightarrow> string \<Rightarrow> error option \<times> world" where
  "os_Remove e w p =
     (if files w p = None then (Some (ExternalError ''no such file or directory''), w)
      else case os_Remove_err e p of
        Some err \<Rightarrow> (Some err, w)
      | None \<Rightarrow> (None, w\<lparr>files := (files w)(p := None)\<rparr>))"

section \<open>helper.go\<close>

text \<open>
  \<open>executablePath\<close>: \<open>foundPath\<close> is the \<open>exec.LookPath\<close> result when that file
  exists, otherwise the result of \<open>os.Executable\<close>, whose error replaces the earlier
  one. The last \<open>return\<close> of the source gives the empty string.
\<close>

definition executablePath :: "env \<Rightarrow> world \<Rightarrow> ServiceProperties \<Rightarrow> string \<times> error option" where
  "executablePath e w properties =
     (let (foundPath, err) =
            (case exec_LookPath e (name properties) of
               Inl err \<Rightarrow> ([], Some err)
             | Inr path \<Rightarrow>
                 (case os_Stat w path of
                    Some err \<Rightarrow> ([], Some err)
                  | None \<Rightarrow> (path, None)));
          (foundPath, err) =
            (if foundPath = [] then os_Executable e else (foundPath, err))
      in if err \<noteq> None then ([], err)
         else if foundPath \<noteq> [] \<and> 0 < length (arguments properties)
           then (foundPath @ '' '' @ Join (arguments properties) '' '', None)
         else ([], None))"

text \<open>\<open>checkPrivileges\<close> runs \<open>id -g\<close> and parses the trimmed output as a 32-bit number.\<close>

definition checkPrivileges :: "env \<Rightarrow> world \<Rightarrow> (bool \<times> error option) \<times> world" where
  "checkPrivileges e w =
     (let ((output, err), w') = exec_Output e w [''id'', ''-g'']
      in (if err = None then
            (case ParseUint (TrimSpace output) 32 of
               Inr gid \<Rightarrow> if gid = 0 then (True, None) else (False, Some ErrRootPrivileges)
             | Inl parseErr \<Rightarrow> (False, Some ErrUnsupportedSystem))
          else (False, Some ErrUnsupportedSystem), w'))"

text \<open>
  \<open>Template.Execute(file, data)\<close> writes what the engine produces into the open
  descriptor file and returns the engine's error.
\<close>

definition Template_Execute ::
  "env \<Rightarrow> world \<Rightarrow> string \<Rightarrow> string \<Rightarrow> tdata \<Rightarrow> error option \<times> world" where
  "Template_Execute e w path tpl data =
     (let (out, err) = template_Execute e tpl data
      in (err, w\<lparr>files := (files w)(path \<mapsto> out)\<rparr>))"

text \<open>
  \<open>regexp.MustCompile(pre + "([0-9]+)" + post).FindStringSubmatch(s)\<close> for a literal
  \<open>pre\<close> and \<open>post\<close> without pattern metacharacters, as in the four pid patterns
  of the package: the leftmost match and its group, or the empty slice. At one
  position the digits are taken greedily; \<open>post\<close> is empty or starts with a non-digit
  in all four patterns, so a shorter run of digits never matches where the longest does not.
\<close>

definition match_here :: "string \<Rightarrow> string \<Rightarrow> string \<Rightarrow> string option" where
  "match_here pre post s =
     (if prefix pre s then
        (let r = drop (length pre) s; ds = takeWhile is_digit r
         in if ds \<noteq> [] \<and> prefix post (dropWhile is_digit r) then Some ds else None)
      else None)"

fun FindStringSubmatch :: "string \<Rightarrow> string \<Rightarrow> string \<Rightarrow> string list" where
  "FindStringSubmatch pre post [] =
     (case match_here pre post [] of Some ds \<Rightarrow> [pre @ ds @ post, ds] | None \<Rightarrow> [])"
| "FindStringSubmatch pre post (c # cs) =
     (case match_here pre post (c # cs) of
        Some ds \<Rightarrow> [pre @ ds @ post, ds]
      | None \<Rightarrow> FindStringSubmatch pre post cs)"

section \<open>daemon\_linux\_systemd.go\<close>

definition SystemdService_servicePath :: "ServiceProperties \<Rightarrow> string" where
  "SystemdService_servicePath svc = ''/etc/systemd/system/'' @ name svc @ ''.service''"

definition SystemdService_isInstalled :: "world \<Rightarrow> ServiceProperties \<Rightarrow> bool" where
  "SystemdService_isInstalled w svc = (os_Stat w (SystemdService_servicePath svc) = None)"

definition SystemdService_checkRunning ::
  "env \<Rightarrow> world \<Rightarrow> ServiceProperties \<Rightarrow> (string \<times> bool) \<times> world" where
  "SystemdService_checkRunning e w svc =
     (let ((output, err), w') =
            exec_Output e w [''systemctl'', ''status'', name svc @ ''.service'']
      in (if err = None \<and> regexp_MatchString e ''Active: active'' output = Inr True then
            (let data = FindStringSubmatch ''Main PID: '' [] output
             in if 1 < length data
                then (''Service (pid  '' @ data ! 1 @ '') is running...'', True)
                else (''Service is running...'', True))
          else (''Service is stopped'', False), w'))"

definition SystemdService_data :: "ServiceProperties \<Rightarrow> string \<Rightarrow> string list \<Rightarrow> tdata" where
  "SystemdService_data svc execPatch args =
     [(''Name'', StringV (name svc)),
      (''Description'', StringV (description svc)),
      (''Dependencies'', StringV (Join (dependencies svc) '' '')),
      (''Path'', StringV execPatch),
      (''Args'', StringV (Join args '' ''))]"

definition SystemdService_Install ::
  "env \<Rightarrow> world \<Rightarrow> ServiceProperties \<Rightarrow> string list \<Rightarrow> (string \<times> error option) \<times> world" where
  "SystemdService_Install e w svc args =
     (let installAction = ''Install '' @ description svc @ '':'';
          ((ok, err), w1) = checkPrivileges e w
      in if \<not> ok then ((installAction @ failed, err), w1)
         else let srvPath = SystemdService_servicePath svc
           in if SystemdService_isInstalled w1 svc
              then ((installAction @ failed, Some ErrAlreadyInstalled), w1)
              else case os_Create e w1 srvPath of
                (Some err, w2) \<Rightarrow> ((installAction @ failed, Some err), w2)
              | (None, w2) \<Rightarrow>
                (case executablePath e w2 svc of
                   (execPatch, Some err) \<Rightarrow> ((installAction @ failed, Some err), w2)
                 | (execPatch, None) \<Rightarrow>
                   (case template_Parse_err e (systemDConfig w2) of
                      Some err \<Rightarrow> ((installAction @ failed, Some err), w2)
                    | None \<Rightarrow>
                      (case Template_Execute e w2 srvPath (systemDConfig w2)
                              (SystemdService_data svc execPatch args) of
                         (Some err, w3) \<Rightarrow> ((installAction @ failed, Some err), w3)
                       | (None, w3) \<Rightarrow>
                         (case exec_Run e w3 [''systemctl'', ''daemon-reload''] of
                            (Some err, w4) \<Rightarrow> ((installAction @ failed, Some err), w4)
                          | (None, w4) \<Rightarrow>
                            (case exec_Run e w4
                                    [''systemctl'', ''enable'', name svc @ ''.service''] of
                               (Some err, w5) \<Rightarrow> ((installAction @ failed, Some err), w5)
                             | (None, w5) \<Rightarrow> ((installAction @ success, None), w5)))))))"

definition SystemdService_Remove ::
  "env \<Rightarrow> world \<Rightarrow> ServiceProperties \<Rightarrow> (string \<times> error option) \<times> world" where
  "SystemdService_Remove e w svc =
     (let removeAction = ''Removing '' @ description svc @ '':'';
          ((ok, err), w1) = checkPrivileges e w
      in if \<not> ok then ((removeAction @ failed, err), w1)
         else if \<not> SystemdService_isInstalled w1 svc
           then ((removeAction @ failed, Some ErrNotInstalled), w1)
         else case exec_Run e w1 [''systemctl'', ''disable'', name svc @ ''.service''] of
           (Some err, w2) \<Rightarrow> ((removeAction @ failed, Some err), w2)
         | (None, w2) \<Rightarrow>
           (case os_Remove e w2 (SystemdService_servicePath svc) of
              (Some err, w3) \<Rightarrow> ((removeAction @ failed, Some err), w3)
            | (None, w3) \<Rightarrow> ((removeAction @ success, None), w3)))"

definition SystemdService_Start ::
  "env \<Rightarrow> world \<Rightarrow> ServiceProperties \<Rightarrow> (string \<times> error option) \<times> world" where
  "SystemdService_Start e w svc =
     (let startAction = ''Starting '' @ description svc @ '':'';
          ((ok, err), w1) = checkPrivileges e w
      in if \<not> ok then ((startAction @ failed, err), w1)
         else if \<not> SystemdService_isInstalled w1 svc
           then ((startAction @ failed, Some ErrNotInstalled), w1)
         else case SystemdService_checkRunning e w1 svc of
           ((_, True), w2) \<Rightarrow> ((startAction @ failed, Some ErrAlreadyRunning), w2)
         | ((_, False), w2) \<Rightarrow>
           (case exec_Run e w2 [''systemctl'', ''start'', name svc @ ''.service''] of
              (Some err, w3) \<Rightarrow> ((startAction @ failed, Some err), w3)
            | (None, w3) \<Rightarrow> ((startAction @ success, None), w3)))"

definition SystemdService_Stop ::
  "env \<Rightarrow> world \<Rightarrow> ServiceProperties \<Rightarrow> (string \<times> error option) \<times> world" where
  "SystemdService_Stop e w svc =
     (let stopAction = ''Stopping '' @ description svc @ '':'';
          ((ok, err), w1) = checkPrivileges e w
      in if \<not> ok then ((stopAction @ failed, err), w1)
         else if \<not> SystemdService_isInstalled w1 svc
           then ((stopAction @ failed, Some ErrNotInstalled), w1)
         else case SystemdService_checkRunning e w1 svc of
           ((_, False), w2) \<Rightarrow> ((stopAction @ failed, Some ErrAlreadyStopped), w2)
         | ((_, True), w2) \<Rightarrow>
           (case exec_Run e w2 [''systemctl'', ''stop'', name svc @ ''.service''] of
              (Some err, w3) \<Rightarrow> ((stopAction @ failed, Some err), w3)
            | (None, w3) \<Rightarrow> ((stopAction @ success, None), w3)))"

definition SystemdService_Status ::
  "env \<Rightarrow> world \<Rightarrow> ServiceProperties \<Rightarrow> (string \<times> error option) \<times> world" where
  "SystemdService_Status e w svc =
     (let ((ok, err), w1) = checkPrivileges e w
      in if \<not> ok then (([], err), w1)
         else if \<not> SystemdService_isInstalled w1 svc
           then ((''Status could not defined'', Some ErrNotInstalled), w1)
         else let ((statusAction, _), w2) = SystemdService_checkRunning e w1 svc
           in ((statusAction, None), w2))"

section \<open>daemon\_linux\_upstart.go\<close>

definition UpstartService_servicePath :: "ServiceProperties \<Rightarrow> string" where
  "UpstartService_servicePath svc = ''/etc/init/'' @ name svc @ ''.conf''"

definition UpstartService_isInstalled :: "world \<Rightarrow> ServiceProperties \<Rightarrow> bool" where
  "UpstartService_isInstalled w svc = (os_Stat w (UpstartService_servicePath svc) = None)"

definition UpstartService_checkRunning ::
  "env \<Rightarrow> world \<Rightarrow> ServiceProperties \<Rightarrow> (string \<times> bool) \<times> world" where
  \<open>UpstartService_checkRunning e w svc =
     (let ((output, err), w') = exec_Output e w [''status'', name svc]
      in (if err = None \<and> regexp_MatchString e (name svc @ '' start/running'') output = Inr True then
            (let data = FindStringSubmatch ''process '' [] output
             in if 1 < length data
                then (''Service (pid  '' @ data ! 1 @ '') is running...'', True)
                else (''Service is running...'', True))
          else (''Service is stopped'', False), w'))\<close>

definition UpstartService_data :: "ServiceProperties \<Rightarrow> string \<Rightarrow> string list \<Rightarrow> tdata" where
  "UpstartService_data svc execPatch args =
     [(''Name'', StringV (name svc)),
      (''Description'', StringV (description svc)),
      (''Path'', StringV execPatch),
      (''Args'', StringV (Join args '' ''))]"

definition UpstartService_Install ::
  "env \<Rightarrow> world \<Rightarrow> ServiceProperties \<Rightarrow> string list \<Rightarrow> (string \<times> error option) \<times> world" where
  "UpstartService_Install e w svc args =
     (let installAction = ''Install '' @ description svc @ '':'';
          ((ok, err), w1) = checkPrivileges e w
      in if \<not> ok then ((installAction @ failed, err), w1)
         else let srvPath = UpstartService_servicePath svc
           in if UpstartService_isInstalled w1 svc
              then ((installAction @ failed, Some ErrAlreadyInstalled), w1)
              else case os_Create e w1 srvPath of
                (Some err, w2) \<Rightarrow> ((installAction @ failed, Some err), w2)
              | (None, w2) \<Rightarrow>
                (case executablePath e w2 svc of
                   (execPatch, Some err) \<Rightarrow> ((installAction @ failed, Some err), w2)
                 | (execPatch, None) \<Rightarrow>
                   (case template_Parse_err e (upstatConfig w2) of
                      Some err \<Rightarrow> ((installAction @ failed, Some err), w2)
                    | None \<Rightarrow>
                      (case Template_Execute e w2 srvPath (upstatConfig w2)
                              (UpstartService_data svc execPatch args) of
                         (Some err, w3) \<Rightarrow> ((installAction @ failed, Some err), w3)
                       | (None, w3) \<Rightarrow>
                         (case os_Chmod e w3 srvPath of
                            Some err \<Rightarrow> ((installAction @ failed, Some err), w3)
                          | None \<Rightarrow> ((installAction @ success, None), w3))))))"

definition UpstartService_Remove ::
  "env \<Rightarrow> world \<Rightarrow> ServiceProperties \<Rightarrow> (string \<times> error option) \<times> world" where
  "UpstartService_Remove e w svc =
     (let removeAction = ''Removing '' @ description svc @ '':'';
          ((ok, err), w1) = checkPrivileges e w
      in if \<not> ok then ((removeAction @ failed, err), w1)
         else if \<not> UpstartService_isInstalled w1 svc
           then ((removeAction @ failed, Some ErrNotInstalled), w1)
         else case os_Remove e w1 (UpstartService_servicePath svc) of
           (Some err, w2) \<Rightarrow> ((removeAction @ failed, Some err), w2)
         | (None, w2) \<Rightarrow> ((removeAction @ success, None), w2))"

definition UpstartService_Start ::
  "env \<Rightarrow> world \<Rightarrow> ServiceProperties \<Rightarrow> (string \<times> error option) \<times> world" where
  "UpstartService_Start e w svc =
     (let startAction = ''Starting '' @ description svc @ '':'';
          ((ok, err), w1) = checkPrivileges e w
      in if \<not> ok then ((startAction @ failed, err), w1)
         else if \<not> UpstartService_isInstalled w1 svc
           then ((startAction @ failed, Some ErrNotInstalled), w1)
         else case UpstartService_checkRunning e w1 svc of
           ((_, True), w2) \<Rightarrow> ((startAction @ failed, Some ErrAlreadyRunning), w2)
         | ((_, False), w2) \<Rightarrow>
           (case exec_Run e w2 [''start'', name svc] of
              (Some err, w3) \<Rightarrow> ((startAction @ failed, Some err), w3)
            | (None, w3) \<Rightarrow> ((startAction @ success, None), w3)))"

definition UpstartService_Stop ::
  "env \<Rightarrow> world \<Rightarrow> ServiceProperties \<Rightarrow> (string \<times> error option) \<times> world" where
  "UpstartService_Stop e w svc =
     (let stopAction = ''Stopping '' @ description svc @ '':'';
          ((ok, err), w1) = checkPrivileges e w
      in if \<not> ok then ((stopAction @ failed, err), w1)
         else if \<not> UpstartService_isInstalled w1 svc
           then ((stopAction @ failed, Some ErrNotInstalled), w1)
         else case UpstartService_checkRunning e w1 svc of
           ((_, False), w2) \<Rightarrow> ((stopAction @ failed, Some ErrAlreadyStopped), w2)
         | ((_, True), w2) \<Rightarrow>
           (case exec_Run e w2 [''stop'', name svc] of
              (Some err, w3) \<Rightarrow> ((stopAction @ failed, Some err), w3)
            | (None, w3) \<Rightarrow> ((stopAction @ success, None), w3)))"

definition UpstartService_Status ::
  "env \<Rightarrow> world \<Rightarrow> ServiceProperties \<Rightarrow> (string \<times> error option) \<times> world" where
  "UpstartService_Status e w svc =
     (let ((ok, err), w1) = checkPrivileges e w
      in if \<not> ok then (([], err), w1)
         else if \<not> UpstartService_isInstalled w1 svc
           then ((''Status could not defined'', Some ErrNotInstalled), w1)
         else let ((statusAction, _), w2) = UpstartService_checkRunning e w1 svc
           in ((statusAction, None), w2))"

section \<open>daemon\_linux\_systemv.go\<close>

text \<open>
  The two kinds of loop of \<open>Install\<close> and \<open>Remove\<close> over the runlevels: each
  iteration makes one call and goes on to the next runlevel whatever the call returns.
\<close>

definition rc_link :: "string \<Rightarrow> string \<Rightarrow> string \<Rightarrow> string" where
  "rc_link i prio nm = ''/etc/rc'' @ i @ ''.d/'' @ prio @ nm"

fun symlink_each :: "env \<Rightarrow> world \<Rightarrow> string \<Rightarrow> string \<Rightarrow> string \<Rightarrow> string list \<Rightarrow> world" where
  "symlink_each e w srvPath prio nm [] = w"
| "symlink_each e w srvPath prio nm (i # rest) =
     (case os_Symlink e w srvPath (rc_link i prio nm) of
        (err, w') \<Rightarrow> symlink_each e w' srvPath prio nm rest)"

fun remove_each :: "env \<Rightarrow> world \<Rightarrow> string \<Rightarrow> string \<Rightarrow> string list \<Rightarrow> world" where
  "remove_each e w prio nm [] = w"
| "remove_each e w prio nm (i # rest) =
     (case os_Remove e w (rc_link i prio nm) of
        (err, w') \<Rightarrow> remove_each e w' prio nm rest)"

definition SystemvService_servicePath :: "ServiceProperties \<Rightarrow> string" where
  "SystemvService_servicePath svc = ''/etc/init.d/'' @ name svc"

definition SystemvService_isInstalled :: "world \<Rightarrow> ServiceProperties \<Rightarrow> bool" where
  "SystemvService_isInstalled w svc = (os_Stat w (SystemvService_servicePath svc) = None)"

definition SystemvService_checkRunning ::
  "env \<Rightarrow> world \<Rightarrow> ServiceProperties \<Rightarrow> (string \<times> bool) \<times> world" where
  \<open>SystemvService_checkRunning e w svc =
     (let ((output, err), w') = exec_Output e w [''service'', name svc, ''status'']
      in (if err = None \<and> regexp_MatchString e (name svc) output = Inr True then
            (let data = FindStringSubmatch ''pid  '' [] output
             in if 1 < length data
                then (''Service (pid  '' @ data ! 1 @ '') is running...'', True)
                else (''Service is running...'', True))
          else (''Service is stopped'', False), w'))\<close>

definition SystemvService_data :: "ServiceProperties \<Rightarrow> string \<Rightarrow> string list \<Rightarrow> tdata" where
  "SystemvService_data svc execPatch args =
     [(''Name'', StringV (name svc)),
      (''Description'', StringV (description svc)),
      (''Path'', StringV execPatch),
      (''Args'', StringV (Join args '' ''))]"

definition SystemvService_Install ::
  "env \<Rightarrow> world \<Rightarrow> ServiceProperties \<Rightarrow> string list \<Rightarrow> (string \<times> error option) \<times> world" where
  "SystemvService_Install e w svc args =
     (let installAction = ''Install '' @ description svc @ '':'';
          ((ok, err), w1) = checkPrivileges e w
      in if \<not> ok then ((installAction @ failed, err), w1)
         else let srvPath = SystemvService_servicePath svc
           in if SystemvService_isInstalled w1 svc
              then ((installAction @ failed, Some ErrAlreadyInstalled), w1)
              else case os_Create e w1 srvPath of
                (Some err, w2) \<Rightarrow> ((installAction @ failed, Some err), w2)
              | (None, w2) \<Rightarrow>
                (case executablePath e w2 svc of
                   (execPatch, Some err) \<Rightarrow> ((installAction @ failed, Some err), w2)
                 | (execPatch, None) \<Rightarrow>
                   (case template_Parse_err e (systemVConfig w2) of
                      Some err \<Rightarrow> ((installAction @ failed, Some err), w2)
                    | None \<Rightarrow>
                      (case Template_Execute e w2 srvPath (systemVConfig w2)
                              (SystemvService_data svc execPatch args) of
                         (Some err, w3) \<Rightarrow> ((installAction @ failed, Some err), w3)
                       | (None, w3) \<Rightarrow>
                         (case os_Chmod e w3 srvPath of
                            Some err \<Rightarrow> ((installAction @ failed, Some err), w3)
                          | None \<Rightarrow> (let w4 = symlink_each e w3 srvPath ''S87'' (name svc) [''2'', ''3'', ''4'', ''5''];
                                        w5 = symlink_each e w4 srvPath ''K17'' (name svc) [''0'', ''1'', ''6'']
                                    in ((installAction @ success, None), w5)))))))"

definition SystemvService_Remove ::
  "env \<Rightarrow> world \<Rightarrow> ServiceProperties \<Rightarrow> (string \<times> error option) \<times> world" where
  "SystemvService_Remove e w svc =
     (let removeAction = ''Removing '' @ description svc @ '':'';
          ((ok, err), w1) = checkPrivileges e w
      in if \<not> ok then ((removeAction @ failed, err), w1)
         else if \<not> SystemvService_isInstalled w1 svc
           then ((removeAction @ failed, Some ErrNotInstalled), w1)
         else case os_Remove e w1 (SystemvService_servicePath svc) of
           (Some err, w2) \<Rightarrow> ((removeAction @ failed, Some err), w2)
         | (None, w2) \<Rightarrow>
           (let w3 = remove_each e w2 ''S87'' (name svc) [''2'', ''3'', ''4'', ''5''];
                w4 = remove_each e w3 ''K17'' (name svc) [''0'', ''1'', ''6'']
            in ((removeAction @ success, None), w4)))"

definition SystemvService_Start ::
  "env \<Rightarrow> world \<Rightarrow> ServiceProperties \<Rightarrow> (string \<times> error option) \<times> world" where
  "SystemvService_Start e w svc =
     (let startAction = ''Starting '' @ description svc @ '':'';
          ((ok, err), w1) = checkPrivileges e w
      in if \<not> ok then ((startAction @ failed, err), w1)
         else if \<not> SystemvService_isInstalled w1 svc
           then ((startAction @ failed, Some ErrNotInstalled), w1)
         else case SystemvService_checkRunning e w1 svc of
           ((_, True), w2) \<Rightarrow> ((startAction @ failed, Some ErrAlreadyRunning), w2)
         | ((_, False), w2) \<Rightarrow>
           (case exec_Run e w2 [''service'', name svc, ''start''] of
              (Some err, w3) \<Rightarrow> ((startAction @ failed, Some err), w3)
            | (None, w3) \<Rightarrow> ((startAction @ success, None), w3)))"

definition SystemvService_Stop ::
  "env \<Rightarrow> world \<Rightarrow> ServiceProperties \<Rightarrow> (string \<times> error option) \<times> world" where
  "SystemvService_Stop e w svc =
     (let stopAction = ''Stopping '' @ description svc @ '':'';
          ((ok, err), w1) = checkPrivileges e w
      in if \<not> ok then ((stopAction @ failed, err), w1)
         else if \<not> SystemvService_isInstalled w1 svc
           then ((stopAction @ failed, Some ErrNotInstalled), w1)
         else case SystemvService_checkRunning e w1 svc of
           ((_, False), w2) \<Rightarrow> ((stopAction @ failed, Some ErrAlreadyStopped), w2)
         | ((_, True), w2) \<Rightarrow>
           (case exec_Run e w2 [''service'', name svc, ''stop''] of
              (Some err, w3) \<Rightarrow> ((stopAction @ failed, Some err), w3)
            | (None, w3) \<Rightarrow> ((stopAction @ success, None), w3)))"

definition SystemvService_Status ::
  "env \<Rightarrow> world \<Rightarrow> ServiceProperties \<Rightarrow> (string \<times> error option) \<times> world" where
  "SystemvService_Status e w svc =
     (let ((ok, err), w1) = checkPrivileges e w
      in if \<not> ok then (([], err), w1)
         else if \<not> SystemvService_isInstalled w1 svc
           then ((''Status could not defined'', Some ErrNotInstalled), w1)
         else let ((statusAction, _), w2) = SystemvService_checkRunning e w1 svc
           in ((statusAction, None), w2))"

section \<open>daemon\_darwin.go\<close>

definition DarwinService_servicePath :: "ServiceProperties \<Rightarrow> string" where
  "DarwinService_servicePath svc = ''/Library/LaunchDaemons/'' @ name svc @ ''.plist''"

definition DarwinService_isInstalled :: "world \<Rightarrow> ServiceProperties \<Rightarrow> bool" where
  "DarwinService_isInstalled w svc = (os_Stat w (DarwinService_servicePath svc) = None)"

definition DarwinService_checkRunning ::
  "env \<Rightarrow> world \<Rightarrow> ServiceProperties \<Rightarrow> (string \<times> bool) \<times> world" where
  \<open>DarwinService_checkRunning e w svc =
     (let ((output, err), w') = exec_Output e w [''launchctl'', ''list'', name svc]
      in (if err = None \<and> regexp_MatchString e (name svc) output = Inr True then
            (let data = FindStringSubmatch (''PID'' @ [CHR 0x22] @ '' = '') '';'' output
             in if 1 < length data
                then (''Service (pid  '' @ data ! 1 @ '') is running...'', True)
                else (''Service is running...'', True))
          else (''Service is stopped'', False), w'))\<close>

definition DarwinService_data :: "ServiceProperties \<Rightarrow> string \<Rightarrow> string list \<Rightarrow> tdata" where
  "DarwinService_data svc execPatch args =
     [(''Name'', StringV (name svc)),
      (''Path'', StringV execPatch),
      (''Args'', SliceV args)]"

definition DarwinService_Install ::
  "env \<Rightarrow> world \<Rightarrow> ServiceProperties \<Rightarrow> string list \<Rightarrow> (string \<times> error option) \<times> world" where
  "DarwinService_Install e w svc args =
     (let installAction = ''Install '' @ description svc @ '':'';
          ((ok, err), w1) = checkPrivileges e w
      in if \<not> ok then ((installAction @ failed, err), w1)
         else let srvPath = DarwinService_servicePath svc
           in if DarwinService_isInstalled w1 svc
              then ((installAction @ failed, Some ErrAlreadyInstalled), w1)
              else case os_Create e w1 srvPath of
                (Some err, w2) \<Rightarrow> ((installAction @ failed, Some err), w2)
              | (None, w2) \<Rightarrow>
                (case executablePath e w2 svc of
                   (execPatch, Some err) \<Rightarrow> ((installAction @ failed, Some err), w2)
                 | (execPatch, None) \<Rightarrow>
                   (case template_Parse_err e (propertyList w2) of
                      Some err \<Rightarrow> ((installAction @ failed, Some err), w2)
                    | None \<Rightarrow>
                      (case Template_Execute e w2 srvPath (propertyList w2)
                              (DarwinService_data svc execPatch args) of
                         (Some err, w3) \<Rightarrow> ((installAction @ failed, Some err), w3)
                       | (None, w3) \<Rightarrow>
                         ((installAction @ success, None), w3)))))"

definition DarwinService_Remove ::
  "env \<Rightarrow> world \<Rightarrow> ServiceProperties \<Rightarrow> (string \<times> error option) \<times> world" where
  "DarwinService_Remove e w svc =
     (let removeAction = ''Removing '' @ description svc @ '':'';
          ((ok, err), w1) = checkPrivileges e w
      in if \<not> ok then ((removeAction @ failed, err), w1)
         else if \<not> DarwinService_isInstalled w1 svc
           then ((removeAction @ failed, Some ErrNotInstalled), w1)
         else case os_Remove e w1 (DarwinService_servicePath svc) of
           (Some err, w2) \<Rightarrow> ((removeAction @ failed, Some err), w2)
         | (None, w2) \<Rightarrow> ((removeAction @ success, None), w2))"

definition DarwinService_Start ::
  "env \<Rightarrow> world \<Rightarrow> ServiceProperties \<Rightarrow> (string \<times> error option) \<times> world" where
  "DarwinService_Start e w svc =
     (let startAction = ''Starting '' @ description svc @ '':'';
          ((ok, err), w1) = checkPrivileges e w
      in if \<not> ok then ((startAction @ failed, err), w1)
         else if \<not> DarwinService_isInstalled w1 svc
           then ((startAction @ failed, Some ErrNotInstalled), w1)
         else case DarwinService_checkRunning e w1 svc of
           ((_, True), w2) \<Rightarrow> ((startAction @ failed, Some ErrAlreadyRunning), w2)
         | ((_, False), w2) \<Rightarrow>
           (case exec_Run e w2 [''launchctl'', ''load'', DarwinService_servicePath svc] of
              (Some err, w3) \<Rightarrow> ((startAction @ failed, Some err), w3)
            | (None, w3) \<Rightarrow> ((startAction @ success, None), w3)))"

definition DarwinService_Stop ::
  "env \<Rightarrow> world \<Rightarrow> ServiceProperties \<Rightarrow> (string \<times> error option) \<times> world" where
  "DarwinService_Stop e w svc =
     (let stopAction = ''Stopping '' @ description svc @ '':'';
          ((ok, err), w1) = checkPrivileges e w
      in if \<not> ok then ((stopAction @ failed, err), w1)
         else if \<not> DarwinService_isInstalled w1 svc
           then ((stopAction @ failed, Some ErrNotInstalled), w1)
         else case DarwinService_checkRunning e w1 svc of
           ((_, False), w2) \<Rightarrow> ((stopAction @ failed, Some ErrAlreadyStopped), w2)
         | ((_, True), w2) \<Rightarrow>
           (case exec_Run e w2 [''launchctl'', ''unload'', DarwinService_servicePath svc] of
              (Some err, w3) \<Rightarrow> ((stopAction @ failed, Some err), w3)
            | (None, w3) \<Rightarrow> ((stopAction @ success, None), w3)))"

definition DarwinService_Status ::
  "env \<Rightarrow> world \<Rightarrow> ServiceProperties \<Rightarrow> (string \<times> error option) \<times> world" where
  "DarwinService_Status e w svc =
     (let ((ok, err), w1) = checkPrivileges e w
      in if \<not> ok then (([], err), w1)
         else if \<not> DarwinService_isInstalled w1 svc
           then ((''Status could not defined'', Some ErrNotInstalled), w1)
         else let ((statusAction, _), w2) = DarwinService_checkRunning e w1 svc
           in ((statusAction, None), w2))"

section \<open>The FreeBSD backend (type \<open>DaemonService\<close>)\<close>

definition DaemonService_servicePath :: "ServiceProperties \<Rightarrow> string" where
  "DaemonService_servicePath svc = ''/usr/local/etc/rc.d/'' @ name svc"

definition DaemonService_isInstalled :: "world \<Rightarrow> ServiceProperties \<Rightarrow> bool" where
  "DaemonService_isInstalled w svc = (os_Stat w (DaemonService_servicePath svc) = None)"

text \<open>\<open>os.Open\<close> followed by \<open>ioutil.ReadAll\<close>, whose error the code drops.\<close>

definition os_Open :: "env \<Rightarrow> world \<Rightarrow> string \<Rightarrow> error + string" where
  "os_Open e w p =
     (case files w p of
        None \<Rightarrow> Inl (ExternalError ''no such file or directory'')
      | Some content \<Rightarrow> (case os_Open_err e p of Some err \<Rightarrow> Inl err | None \<Rightarrow> Inr content))"

text \<open>
  The loop of \<open>isEnabled\<close> over the matched line. It leaves at the first rune that is
  not a space: with \<open>chrFound\<close> false if that rune is \<open>#\<close>, true otherwise. Both
  flags are false whenever an iteration starts, so the loop is a scan of the string.
\<close>

fun enabled_scan :: "string \<Rightarrow> bool" where
  "enabled_scan [] = False"
| "enabled_scan (c # cs) =
     (if c = CHR ''#'' then False
      else if c \<noteq> CHR '' '' then True
      else enabled_scan cs)"

text \<open>
  \<open>isEnabled\<close> drops the error of \<open>regexp.Compile\<close>: for a pattern that does not
  compile \<open>r\<close> is nil, and \<open>r.Find\<close> dereferences it.
\<close>

definition DaemonService_isEnabled ::
  "env \<Rightarrow> world \<Rightarrow> ServiceProperties \<Rightarrow> (bool \<times> error option) outcome" where
  "DaemonService_isEnabled e w svc =
     (case os_Open e w ''/etc/rc.conf'' of
        Inl err \<Rightarrow> Returns (False, Some err)
      | Inr rcData \<Rightarrow>
          (let pat = ''.*'' @ name svc @ ''_enable='' @ [CHR 0x22] @ ''YES'' @ [CHR 0x22] @ ''.*''
           in case regexp_Compile_err e pat of
                Some err \<Rightarrow> Panics
              | None \<Rightarrow> Returns (enabled_scan (regexp_Find e pat rcData), None)))"

definition DaemonService_getCmd ::
  "env \<Rightarrow> world \<Rightarrow> ServiceProperties \<Rightarrow> string \<Rightarrow> string outcome" where
  "DaemonService_getCmd e w svc cmd =
     (case DaemonService_isEnabled e w svc of
        Panics \<Rightarrow> Panics
      | Returns (ok, err) \<Rightarrow> Returns (if \<not> ok \<or> err \<noteq> None then ''one'' @ cmd else cmd))"

definition DaemonService_checkRunning ::
  "env \<Rightarrow> world \<Rightarrow> ServiceProperties \<Rightarrow> (string \<times> bool) outcome \<times> world" where
  "DaemonService_checkRunning e w svc =
     (case DaemonService_getCmd e w svc ''status'' of
        Panics \<Rightarrow> (Panics, w)
      | Returns cmd \<Rightarrow>
          (let ((output, err), w') = exec_Output e w [''service'', name svc, cmd]
           in (Returns
                (if err = None \<and> regexp_MatchString e (name svc) output = Inr True then
                   (let data = FindStringSubmatch ''pid  '' [] output
                    in if 1 < length data
                       then (''Service (pid  '' @ data ! 1 @ '') is running...'', True)
                       else (''Service is running...'', True))
                 else (''Service is stopped'', False)), w')))"

definition DaemonService_data :: "ServiceProperties \<Rightarrow> string \<Rightarrow> string list \<Rightarrow> tdata" where
  "DaemonService_data svc execPatch args =
     [(''Name'', StringV (name svc)),
      (''Description'', StringV (description svc)),
      (''Path'', StringV execPatch),
      (''Args'', StringV (Join args '' ''))]"

definition DaemonService_Install ::
  "env \<Rightarrow> world \<Rightarrow> ServiceProperties \<Rightarrow> string list \<Rightarrow> (string \<times> error option) \<times> world" where
  "DaemonService_Install e w svc args =
     (let installAction = ''Install '' @ description svc @ '':'';
          ((ok, err), w1) = checkPrivileges e w
      in if \<not> ok then ((installAction @ failed, err), w1)
         else let srvPath = DaemonService_servicePath svc
           in if DaemonService_isInstalled w1 svc
              then ((installAction @ failed, Some ErrAlreadyInstalled), w1)
              else case os_Create e w1 srvPath of
                (Some err, w2) \<Rightarrow> ((installAction @ failed, Some err), w2)
              | (None, w2) \<Rightarrow>
                (case executablePath e w2 svc of
                   (execPatch, Some err) \<Rightarrow> ((installAction @ failed, Some err), w2)
                 | (execPatch, None) \<Rightarrow>
                   (case template_Parse_err e (bsdConfig w2) of
                      Some err \<Rightarrow> ((installAction @ failed, Some err), w2)
                    | None \<Rightarrow>
                      (case Template_Execute e w2 srvPath (bsdConfig w2)
                              (DaemonService_data svc execPatch args) of
                         (Some err, w3) \<Rightarrow> ((installAction @ failed, Some err), w3)
                       | (None, w3) \<Rightarrow>
                         (case os_Chmod e w3 srvPath of
                            Some err \<Rightarrow> ((installAction @ failed, Some err), w3)
                          | None \<Rightarrow> ((installAction @ success, None), w3))))))"

definition DaemonService_Remove ::
  "env \<Rightarrow> world \<Rightarrow> ServiceProperties \<Rightarrow> (string \<times> error option) \<times> world" where
  "DaemonService_Remove e w svc =
     (let removeAction = ''Removing '' @ description svc @ '':'';
          ((ok, err), w1) = checkPrivileges e w
      in if \<not> ok then ((removeAction @ failed, err), w1)
         else if \<not> DaemonService_isInstalled w1 svc
           then ((removeAction @ failed, Some ErrNotInstalled), w1)
         else case os_Remove e w1 (DaemonService_servicePath svc) of
           (Some err, w2) \<Rightarrow> ((removeAction @ failed, Some err), w2)
         | (None, w2) \<Rightarrow> ((removeAction @ success, None), w2))"

definition DaemonService_Start ::
  "env \<Rightarrow> world \<Rightarrow> ServiceProperties \<Rightarrow> (string \<times> error option) outcome \<times> world" where
  "DaemonService_Start e w svc =
     (let startAction = ''Starting '' @ description svc @ '':'';
          ((ok, err), w1) = checkPrivileges e w
      in if \<not> ok then (Returns (startAction @ failed, err), w1)
         else if \<not> DaemonService_isInstalled w1 svc
           then (Returns (startAction @ failed, Some ErrNotInstalled), w1)
         else case DaemonService_checkRunning e w1 svc of
           (Panics, w2) \<Rightarrow> (Panics, w2)
         | (Returns (_, True), w2) \<Rightarrow> (Returns (startAction @ failed, Some ErrAlreadyRunning), w2)
         | (Returns (_, False), w2) \<Rightarrow>
           (case DaemonService_getCmd e w2 svc ''start'' of
              Panics \<Rightarrow> (Panics, w2)
            | Returns cmd \<Rightarrow>
              (case exec_Run e w2 [''service'', name svc, cmd] of
                 (Some err, w3) \<Rightarrow> (Returns (startAction @ failed, Some err), w3)
               | (None, w3) \<Rightarrow> (Returns (startAction @ success, None), w3))))"

definition DaemonService_Stop ::
  "env \<Rightarrow> world \<Rightarrow> ServiceProperties \<Rightarrow> (string \<times> error option) outcome \<times> world" where
  "DaemonService_Stop e w svc =
     (let stopAction = ''Stopping '' @ description svc @ '':'';
          ((ok, err), w1) = checkPrivileges e w
      in if \<not> ok then (Returns (stopAction @ failed, err), w1)
         else if \<not> DaemonService_isInstalled w1 svc
           then (Returns (stopAction @ failed, Some ErrNotInstalled), w1)
         else case DaemonService_checkRunning e w1 svc of
           (Panics, w2) \<Rightarrow> (Panics, w2)
         | (Returns (_, False), w2) \<Rightarrow> (Returns (stopAction @ failed, Some ErrAlreadyStopped), w2)
         | (Returns (_, True), w2) \<Rightarrow>
           (case DaemonService_getCmd e w2 svc ''stop'' of
              Panics \<Rightarrow> (Panics, w2)
            | Returns cmd \<Rightarrow>
              (case exec_Run e w2 [''service'', name svc, cmd] of
                 (Some err, w3) \<Rightarrow> (Returns (stopAction @ failed, Some err), w3)
               | (None, w3) \<Rightarrow> (Returns (stopAction @ success, None), w3))))"

definition DaemonService_Status ::
  "env \<Rightarrow> world \<Rightarrow> ServiceProperties \<Rightarrow> (string \<times> error option) outcome \<times> world" where
  "DaemonService_Status e w svc =
     (let ((ok, err), w1) = checkPrivileges e w
      in if \<not> ok then (Returns ([], err), w1)
         else if \<not> DaemonService_isInstalled w1 svc
           then (Returns (''Status could not defined'', Some ErrNotInstalled), w1)
         else case DaemonService_checkRunning e w1 svc of
           (Panics, w2) \<Rightarrow> (Panics, w2)
         | (Returns (statusAction, _), w2) \<Rightarrow> (Returns (statusAction, None), w2))"

section \<open>The \<open>Daemon\<close> interface and the platform selector\<close>

text \<open>A value of the interface is one of the five backend structs.\<close>

datatype Daemon =
    SystemdService ServiceProperties
  | UpstartService ServiceProperties
  | SystemvService ServiceProperties
  | DarwinService ServiceProperties
  | DaemonService ServiceProperties

text \<open>\<open>newDaemon\<close> of \<open>daemon_linux.go\<close>.\<close>

definition newDaemon ::
  "world \<Rightarrow> string \<Rightarrow> string \<Rightarrow> string list \<Rightarrow> string list \<Rightarrow> Daemon \<times> error option" where
  "newDaemon w nm descr args deps =
     (if os_Stat w ''/run/systemd/system'' = None then
        (SystemdService
           \<lparr>name = nm, description = descr, arguments = args, dependencies = deps\<rparr>, None)
      else if os_Stat w ''/sbin/initctl'' = None then
        (UpstartService
           \<lparr>name = nm, description = descr, arguments = args, dependencies = deps\<rparr>, None)
      else
        (SystemvService
           \<lparr>name = nm, description = descr, arguments = args, dependencies = deps\<rparr>, None))"

text \<open>Method calls through the interface.\<close>

definition returned :: "'a \<times> world \<Rightarrow> 'a outcome \<times> world" where
  "returned r = (Returns (fst r), snd r)"

fun properties_of :: "Daemon \<Rightarrow> ServiceProperties" where
  "properties_of (SystemdService svc) = svc"
| "properties_of (UpstartService svc) = svc"
| "properties_of (SystemvService svc) = svc"
| "properties_of (DarwinService svc) = svc"
| "properties_of (DaemonService svc) = svc"

fun GetTemplate :: "Daemon \<Rightarrow> world \<Rightarrow> string" where
  "GetTemplate (SystemdService svc) w = systemDConfig w"
| "GetTemplate (UpstartService svc) w = upstatConfig w"
| "GetTemplate (SystemvService svc) w = systemVConfig w"
| "GetTemplate (DarwinService svc) w = propertyList w"
| "GetTemplate (DaemonService svc) w = bsdConfig w"

fun SetTemplate :: "Daemon \<Rightarrow> world \<Rightarrow> string \<Rightarrow> error option \<times> world" where
  "SetTemplate (SystemdService svc) w tplStr = (None, w\<lparr>systemDConfig := tplStr\<rparr>)"
| "SetTemplate (UpstartService svc) w tplStr = (None, w\<lparr>upstatConfig := tplStr\<rparr>)"
| "SetTemplate (SystemvService svc) w tplStr = (None, w\<lparr>systemVConfig := tplStr\<rparr>)"
| "SetTemplate (DarwinService svc) w tplStr = (None, w\<lparr>propertyList := tplStr\<rparr>)"
| "SetTemplate (DaemonService svc) w tplStr = (None, w\<lparr>bsdConfig := tplStr\<rparr>)"

fun servicePath :: "Daemon \<Rightarrow> string" where
  "servicePath (SystemdService svc) = SystemdService_servicePath svc"
| "servicePath (UpstartService svc) = UpstartService_servicePath svc"
| "servicePath (SystemvService svc) = SystemvService_servicePath svc"
| "servicePath (DarwinService svc) = DarwinService_servicePath svc"
| "servicePath (DaemonService svc) = DaemonService_servicePath svc"

fun isInstalled :: "Daemon \<Rightarrow> world \<Rightarrow> bool" where
  "isInstalled (SystemdService svc) w = SystemdService_isInstalled w svc"
| "isInstalled (UpstartService svc) w = UpstartService_isInstalled w svc"
| "isInstalled (SystemvService svc) w = SystemvService_isInstalled w svc"
| "isInstalled (DarwinService svc) w = DarwinService_isInstalled w svc"
| "isInstalled (DaemonService svc) w = DaemonService_isInstalled w svc"

fun checkRunning :: "Daemon \<Rightarrow> env \<Rightarrow> world \<Rightarrow> (string \<times> bool) outcome \<times> world" where
  "checkRunning (SystemdService svc) e w = returned (SystemdService_checkRunning e w svc)"
| "checkRunning (UpstartService svc) e w = returned (UpstartService_checkRunning e w svc)"
| "checkRunning (SystemvService svc) e w = returned (SystemvService_checkRunning e w svc)"
| "checkRunning (DarwinService svc) e w = returned (DarwinService_checkRunning e w svc)"
| "checkRunning (DaemonService svc) e w = DaemonService_checkRunning e w svc"

fun Install ::
  "Daemon \<Rightarrow> env \<Rightarrow> world \<Rightarrow> string list \<Rightarrow> (string \<times> error option) outcome \<times> world" where
  "Install (SystemdService svc) e w args = returned (SystemdService_Install e w svc args)"
| "Install (UpstartService svc) e w args = returned (UpstartService_Install e w svc args)"
| "Install (SystemvService svc) e w args = returned (SystemvService_Install e w svc args)"
| "Install (DarwinService svc) e w args = returned (DarwinService_Install e w svc args)"
| "Install (DaemonService svc) e w args = returned (DaemonService_Install e w svc args)"

fun Remove :: "Daemon \<Rightarrow> env \<Rightarrow> world \<Rightarrow> (string \<times> error option) outcome \<times> world" where
  "Remove (SystemdService svc) e w = returned (SystemdService_Remove e w svc)"
| "Remove (UpstartService svc) e w = returned (UpstartService_Remove e w svc)"
| "Remove (SystemvService svc) e w = returned (SystemvService_Remove e w svc)"
| "Remove (DarwinService svc) e w = returned (DarwinService_Remove e w svc)"
| "Remove (DaemonService svc) e w = returned (DaemonService_Remove e w svc)"

fun Start :: "Daemon \<Rightarrow> env \<Rightarrow> world \<Rightarrow> (string \<times> error option) outcome \<times> world" where
  "Start (SystemdService svc) e w = returned (SystemdService_Start e w svc)"
| "Start (UpstartService svc) e w = returned (UpstartService_Start e w svc)"
| "Start (SystemvService svc) e w = returned (SystemvService_Start e w svc)"
| "Start (DarwinService svc) e w = returned (DarwinService_Start e w svc)"
| "Start (DaemonService svc) e w = DaemonService_Start e w svc"

fun Stop :: "Daemon \<Rightarrow> env \<Rightarrow> world \<Rightarrow> (string \<times> error option) outcome \<times> world" where
  "Stop (SystemdService svc) e w = returned (SystemdService_Stop e w svc)"
| "Stop (UpstartService svc) e w = returned (UpstartService_Stop e w svc)"
| "Stop (SystemvService svc) e w = returned (SystemvService_Stop e w svc)"
| "Stop (DarwinService svc) e w = returned (DarwinService_Stop e w svc)"
| "Stop (DaemonService svc) e w = DaemonService_Stop e w svc"

fun Status :: "Daemon \<Rightarrow> env \<Rightarrow> world \<Rightarrow> (string \<times> error option) outcome \<times> world" where
  "Status (SystemdService svc) e w = returned (SystemdService_Status e w svc)"
| "Status (UpstartService svc) e w = returned (UpstartService_Status e w svc)"
| "Status (SystemvService svc) e w = returned (SystemvService_Status e w svc)"
| "Status (DarwinService svc) e w = returned (DarwinService_Status e w svc)"
| "Status (DaemonService svc) e w = DaemonService_Status e w svc"

text \<open>
  The constants of the five \<open>checkRunning\<close> and \<open>Start\<close> methods, by backend: the
  pattern given to \<open>regexp.MatchString\<close>, the literal text around \<open>([0-9]+)\<close> in the
  pid pattern, and the argument vectors of the native status and start commands. The
  FreeBSD backend computes the last argument with \<open>getCmd\<close>.
\<close>

fun presence_pattern :: "Daemon \<Rightarrow> string" where
  "presence_pattern (SystemdService svc) = ''Active: active''"
| "presence_pattern (UpstartService svc) = name svc @ '' start/running''"
| "presence_pattern (SystemvService svc) = name svc"
| "presence_pattern (DarwinService svc) = name svc"
| "presence_pattern (DaemonService svc) = name svc"

fun pid_pattern :: "Daemon \<Rightarrow> string \<times> string" where
  "pid_pattern (SystemdService svc) = (''Main PID: '', [])"
| "pid_pattern (UpstartService svc) = (''process '', [])"
| "pid_pattern (SystemvService svc) = (''pid  '', [])"
| "pid_pattern (DarwinService svc) = (''PID'' @ [CHR 0x22] @ '' = '', '';'')"
| "pid_pattern (DaemonService svc) = (''pid  '', [])"

fun status_command :: "Daemon \<Rightarrow> env \<Rightarrow> world \<Rightarrow> string list outcome" where
  "status_command (SystemdService svc) e w =
     Returns [''systemctl'', ''status'', name svc @ ''.service'']"
| "status_command (UpstartService svc) e w = Returns [''status'', name svc]"
| "status_command (SystemvService svc) e w = Returns [''service'', name svc, ''status'']"
| "status_command (DarwinService svc) e w = Returns [''launchctl'', ''list'', name svc]"
| "status_command (DaemonService svc) e w =
     (case DaemonService_getCmd e w svc ''status'' of
        Panics \<Rightarrow> Panics
      | Returns cmd \<Rightarrow> Returns [''service'', name svc, cmd])"

fun start_command :: "Daemon \<Rightarrow> env \<Rightarrow> world \<Rightarrow> string list outcome" where
  "start_command (SystemdService svc) e w =
     Returns [''systemctl'', ''start'', name svc @ ''.service'']"
| "start_command (UpstartService svc) e w = Returns [''start'', name svc]"
| "start_command (SystemvService svc) e w = Returns [''service'', name svc, ''start'']"
| "start_command (DarwinService svc) e w =
     Returns [''launchctl'', ''load'', DarwinService_servicePath svc]"
| "start_command (DaemonService svc) e w =
     (case DaemonService_getCmd e w svc ''start'' of
        Panics \<Rightarrow> Panics
      | Returns cmd \<Rightarrow> Returns [''service'', name svc, cmd])"

text \<open>The struct each backend's \<open>Install\<close> hands to \<open>Template.Execute\<close>.\<close>

fun template_data :: "Daemon \<Rightarrow> string \<Rightarrow> string list \<Rightarrow> tdata" where
  "template_data (SystemdService svc) execPatch args = SystemdService_data svc execPatch args"
| "template_data (UpstartService svc) execPatch args = UpstartService_data svc execPatch args"
| "template_data (SystemvService svc) execPatch args = SystemvService_data svc execPatch args"
| "template_data (DarwinService svc) execPatch args = DarwinService_data svc execPatch args"
| "template_data (DaemonService svc) execPatch args = DaemonService_data svc execPatch args"

text \<open>
  The pid pattern in words. \<open>pid_text_at pre post s\<close>: the text \<open>s\<close> begins with
  \<open>pre\<close>, then one or more decimal digits, then \<open>post\<close>, which is what a match of
  \<open>pre([0-9]+)post\<close> at the start of \<open>s\<close> is. \<open>no_pid_text_within pre post before
  tail\<close>: no such match starts at a position inside \<open>before\<close> in the text
  \<open>before @ tail\<close>.
\<close>

definition pid_text_at :: "string \<Rightarrow> string \<Rightarrow> string \<Rightarrow> bool" where
  "pid_text_at pre post s =
     (if prefix pre s then
        list_ex (\<lambda>n. length pre + n \<le> length s \<and>
                     list_all is_digit (take n (drop (length pre) s)) \<and>
                     prefix post (drop (length pre + n) s))
          [1..<Suc (length s)]
      else False)"

fun no_pid_text_within :: "string \<Rightarrow> string \<Rightarrow> string \<Rightarrow> string \<Rightarrow> bool" where
  "no_pid_text_within pre post [] tail = True"
| "no_pid_text_within pre post (c # cs) tail =
     (\<not> pid_text_at pre post (c # cs @ tail) \<and> no_pid_text_within pre post cs tail)"


text \<open>Whether two values of the interface are of the same backend type.\<close>

fun same_backend :: "Daemon \<Rightarrow> Daemon \<Rightarrow> bool" where
  "same_backend (SystemdService a) (SystemdService b) = True"
| "same_backend (UpstartService a) (UpstartService b) = True"
| "same_backend (SystemvService a) (SystemvService b) = True"
| "same_backend (DarwinService a) (DarwinService b) = True"
| "same_backend (DaemonService a) (DaemonService b) = True"
| "same_backend a b = False"

fun is_systemd :: "Daemon \<Rightarrow> bool" where
  "is_systemd (SystemdService svc) = True"
| "is_systemd d = False"

section \<open>A sample host\<close>

text \<open>
  A host on which the examples below are evaluated. Its pattern engine is substring
  search, which is what \<open>regexp.MatchString\<close> does for a pattern without
  metacharacters; its template engine returns the template text, which is what
  \<open>text/template\<close> does for a text without actions. \<open>id -g\<close> prints group 0, and
  each status command prints a line in the style of its service manager.
\<close>

fun contains :: "string \<Rightarrow> string \<Rightarrow> bool" where
  "contains p [] = (p = [])"
| "contains p (c # cs) = (prefix p (c # cs) \<or> contains p cs)"

definition sample_commands :: "string list list \<Rightarrow> string list \<Rightarrow> string \<times> error option" where
  "sample_commands history argv =
     (if argv = [''id'', ''-g''] then (''0'' @ [CHR 0x0A], None)
      else if argv = [''systemctl'', ''status'', ''sampled.service'']
        then (''Active: active (running) Main PID: 1234 (sampled)'', None)
      else if argv = [''status'', ''sampled'']
        then (''sampled start/running, process 987'', None)
      else if argv = [''service'', ''sampled'', ''status'']
        then (''sampled (pid  1234) is running...'', None)
      else if argv = [''service'', ''sampled'', ''onestatus'']
        then (''sampled (pid  7) is running...'', None)
      else if argv = [''launchctl'', ''list'', ''sampled'']
        then (''PID'' @ [CHR 0x22] @ '' = 56789; Label = sampled;'', None)
      else ([], None))"

definition sample_host :: env where
  "sample_host =
     \<lparr>exec_Command = sample_commands,
      exec_LookPath = (\<lambda>file. Inr (''/usr/bin/'' @ file)),
      os_Executable = (''/opt/daemon'', None),
      os_Create_err = (\<lambda>p. None),
      os_Chmod_err = (\<lambda>p. None),
      os_Symlink_err = (\<lambda>p. None),
      os_Remove_err = (\<lambda>p. None),
      os_Open_err = (\<lambda>p. None),
      template_Parse_err = (\<lambda>tpl. None),
      template_Execute = (\<lambda>tpl data. (tpl, None)),
      regexp_MatchString = (\<lambda>pat s. Inr (contains pat s)),
      regexp_Compile_err = (\<lambda>pat. None),
      regexp_Find = (\<lambda>pat s. [])\<rparr>"

definition sample_disk :: world where
  "sample_disk =
     \<lparr>files = [''/usr/bin/sampled'' \<mapsto> ''ELF''],
      cmdlog = [],
      systemDConfig = ''[Unit]'',
      upstatConfig = ''respawn'',
      systemVConfig = ''#! /bin/sh'',
      propertyList = ''<plist/>'',
      bsdConfig = ''#!/bin/sh''\<rparr>"

definition sampled :: ServiceProperties where
  "sampled =
     \<lparr>name = ''sampled'', description = ''Sample Daemon'',
      arguments = [], dependencies = [''network'']\<rparr>"

definition unprivileged_host :: env where
  "unprivileged_host = sample_host\<lparr>exec_Command := \<lambda>history argv. (''1000'', None)\<rparr>"

definition both_markers :: world where
  "both_markers =
     sample_disk\<lparr>files := [''/run/systemd/system'' \<mapsto> [], ''/sbin/initctl'' \<mapsto> []]\<rparr>"

definition upstart_marker :: world where
  "upstart_marker = sample_disk\<lparr>files := [''/sbin/initctl'' \<mapsto> []]\<rparr>"

definition idle :: ServiceProperties where
  "idle = sampled\<lparr>name := ''idle''\<rparr>"

definition unbalanced :: ServiceProperties where
  "unbalanced = sampled\<lparr>name := ''a(''\<rparr>"

text \<open>
  A disk on which the descriptor files of the examples exist, and a host whose
  pattern compiler rejects the \<open>rc.conf\<close> pattern built from the name \<open>a(\<close>, as
  \<open>regexp.Compile\<close> does for an unbalanced parenthesis.
\<close>

definition installed_disk :: world where
  "installed_disk =
     sample_disk\<lparr>files :=
       [''/etc/systemd/system/sampled.service'' \<mapsto> ''[Unit]'',
        ''/etc/systemd/system/idle.service'' \<mapsto> ''[Unit]'',
        ''/usr/local/etc/rc.d/a('' \<mapsto> ''#!/bin/sh'',
        ''/etc/rc.conf'' \<mapsto> ''sshd_enable='' @ [CHR 0x22] @ ''YES'' @ [CHR 0x22]]\<rparr>"

definition strict_host :: env where
  "strict_host =
     sample_host\<lparr>regexp_Compile_err := \<lambda>pat.
       if pat = ''.*a(_enable='' @ [CHR 0x22] @ ''YES'' @ [CHR 0x22] @ ''.*''
       then Some (ExternalError ''missing closing )'') else None\<rparr>"

definition failing_start_host :: env where
  "failing_start_host =
     sample_host\<lparr>exec_Command := \<lambda>history argv.
       if argv = [''systemctl'', ''start'', ''idle.service'']
       then ([], Some (ExternalError ''exit status 1'')) else sample_commands history argv\<rparr>"

definition failing_reload_host :: env where
  "failing_reload_host =
     sample_host\<lparr>exec_Command := \<lambda>history argv.
       if argv = [''systemctl'', ''daemon-reload'']
       then ([], Some (ExternalError ''exit status 1'')) else sample_commands history argv\<rparr>"





text \<open>
  A template engine for the examples of rendering: it copies the template text and
  replaces every action of the form \<open>{{.Field}}\<close> by the value of that field, as
  \<open>text/template\<close> does for a struct of strings; a slice prints in brackets. At an
  action it cannot evaluate it stops with an error, the text before it already written.
\<close>

datatype scan = InText | Brace | InAction string | Closing string

fun field_value :: "tdata \<Rightarrow> string \<Rightarrow> error + string" where
  "field_value [] fld = Inl (ExternalError (''can not evaluate field '' @ fld))"
| "field_value ((k, v) # rest) fld =
     (if k = fld then
        (case v of StringV str \<Rightarrow> Inr str | SliceV strs \<Rightarrow> Inr (''['' @ Join strs '' '' @ '']''))
      else field_value rest fld)"

definition action_value :: "tdata \<Rightarrow> string \<Rightarrow> error + string" where
  "action_value data act =
     (case act of
        [] \<Rightarrow> Inl (ExternalError ''missing value for command'')
      | c # fld \<Rightarrow>
          if c = CHR ''.'' then field_value data fld
          else Inl (ExternalError ''action not supported''))"

definition emit :: "string \<Rightarrow> string \<times> error option \<Rightarrow> string \<times> error option" where
  "emit str r = (str @ fst r, snd r)"

fun print_fields :: "tdata \<Rightarrow> scan \<Rightarrow> string \<Rightarrow> string \<times> error option" where
  "print_fields data InText [] = ([], None)"
| "print_fields data Brace [] = (''{'', None)"
| "print_fields data (InAction act) [] = ([], Some (ExternalError ''unclosed action''))"
| "print_fields data (Closing act) [] = ([], Some (ExternalError ''unclosed action''))"
| "print_fields data InText (c # cs) =
     (if c = CHR ''{'' then print_fields data Brace cs
      else emit [c] (print_fields data InText cs))"
| "print_fields data Brace (c # cs) =
     (if c = CHR ''{'' then print_fields data (InAction []) cs
      else emit [CHR ''{'', c] (print_fields data InText cs))"
| "print_fields data (InAction act) (c # cs) =
     (if c = CHR ''}'' then print_fields data (Closing act) cs
      else print_fields data (InAction (act @ [c])) cs)"
| "print_fields data (Closing act) (c # cs) =
     (if c = CHR ''}'' then
        (case action_value data act of
           Inl err \<Rightarrow> ([], Some err)
         | Inr str \<Rightarrow> emit str (print_fields data InText cs))
      else print_fields data (InAction (act @ [CHR ''}'', c])) cs)"

definition printing_host :: env where
  "printing_host =
     sample_host\<lparr>template_Execute := \<lambda>tpl data. print_fields data InText tpl\<rparr>"

text \<open>
  A descriptor with an argument, so that its executable path is not empty, the same
  descriptor with other dependencies, and a disk whose systemd and upstart templates
  print every field of their struct.
\<close>

definition flagged :: "string list \<Rightarrow> ServiceProperties" where
  "flagged deps =
     \<lparr>name = ''sampled'', description = ''Sample Daemon'',
      arguments = [''--flag''], dependencies = deps\<rparr>"

definition printing_disk :: world where
  "printing_disk =
     sample_disk\<lparr>
       systemDConfig := ''Description={{.Description}} Requires={{.Dependencies}} PIDFile=/var/run/{{.Name}}.pid ExecStart={{.Path}} {{.Args}}'',
       upstatConfig := ''description {{.Description}}; exec {{.Path}} {{.Args}} >> /var/log/{{.Name}}.log''\<rparr>"

definition busy_disk :: world where
  "busy_disk =
     printing_disk\<lparr>
       files := (files printing_disk)(''/etc/motd'' \<mapsto> ''welcome''),
       cmdlog := [[''uptime'']]\<rparr>"

section \<open>Facts about the host calls\<close>

lemma checkPrivileges_world:
  "snd (checkPrivileges e w) = w\<lparr>cmdlog := cmdlog w @ [[''id'', ''-g'']]\<rparr>"
  by (simp add: checkPrivileges_def exec_Output_def split: prod.splits)

lemma executablePath_no_arguments:
  "arguments svc = [] \<Longrightarrow> fst (executablePath e w svc) = []"
  by (simp add: executablePath_def Let_def split: sum.splits option.splits prod.splits)

lemma sample_id_g:
  "exec_Command sample_host (cmdlog sample_disk) [''id'', ''-g''] = (''0'' @ [CHR 0x0A], None)"
  by (simp add: sample_host_def sample_commands_def)

lemma sample_gid_parses: "ParseUint (TrimSpace (''0'' @ [CHR 0x0A])) 32 = Inr 0"
  by (simp add: TrimSpace_def space_runes_def ParseUint_def decimal_def is_digit_def)

lemma checkPrivileges_files: "checkPrivileges e w = (r, w1) \<Longrightarrow> files w1 = files w"
  using checkPrivileges_world [of e w] by simp

lemma returned_eq [simp]: "returned r = (Returns a, w) \<longleftrightarrow> r = (a, w)"
  by (cases r) (simp add: returned_def)

lemma isInstalled_files: "files w' = files w \<Longrightarrow> isInstalled d w' = isInstalled d w"
  by (cases d)
    (simp_all add: SystemdService_isInstalled_def UpstartService_isInstalled_def
      SystemvService_isInstalled_def DarwinService_isInstalled_def
      DaemonService_isInstalled_def os_Stat_def)

lemma getCmd_files:
  "files w' = files w \<Longrightarrow> DaemonService_getCmd e w' svc cmd = DaemonService_getCmd e w svc cmd"
  by (simp add: DaemonService_getCmd_def DaemonService_isEnabled_def os_Open_def)

lemma getCmd_returns_any:
  "DaemonService_getCmd e w svc cmd = Returns c \<Longrightarrow>
   \<exists>c'. DaemonService_getCmd e w svc cmd' = Returns c'"
  by (auto simp: DaemonService_getCmd_def split: outcome.splits)

lemma DaemonService_checkRunning_world:
  "DaemonService_checkRunning e w svc = (Returns r, w') \<Longrightarrow>
   files w' = files w \<and> (\<exists>c. DaemonService_getCmd e w svc ''status'' = Returns c)"
  by (auto simp: DaemonService_checkRunning_def exec_Output_def split: outcome.splits prod.splits)

lemmas sample_defs = sample_host_def sample_disk_def sample_commands_def sampled_def

lemma privileged_check:
  "checkPrivileges sample_host installed_disk =
     ((True, None), installed_disk\<lparr>cmdlog := [[''id'', ''-g'']]\<rparr>)"
  "checkPrivileges sample_host sample_disk =
     ((True, None), sample_disk\<lparr>cmdlog := [[''id'', ''-g'']]\<rparr>)"
  "checkPrivileges failing_start_host installed_disk =
     ((True, None), installed_disk\<lparr>cmdlog := [[''id'', ''-g'']]\<rparr>)"
  "checkPrivileges strict_host installed_disk =
     ((True, None), installed_disk\<lparr>cmdlog := [[''id'', ''-g'']]\<rparr>)"
  by (simp_all add: checkPrivileges_def exec_Output_def sample_defs installed_disk_def
      failing_start_host_def strict_host_def
      TrimSpace_def space_runes_def ParseUint_def decimal_def is_digit_def)

section \<open>The executable path resolver\<close>

text \<open>
  C1. The claim: for a descriptor with no arguments whose name resolves on the search
  path, \<open>executablePath\<close> returns the bare resolved path and no error. The code
  returns the empty string there: on the sample host the name \<open>sampled\<close> resolves to
  \<open>/usr/bin/sampled\<close>, that file exists, the arguments are empty, and the result
  is the empty path with a nil error.
\<close>

theorem executablePath_drops_bare_path:
  "arguments sampled = [] \<and>
   exec_LookPath sample_host (name sampled) = Inr ''/usr/bin/sampled'' \<and>
   os_Stat sample_disk ''/usr/bin/sampled'' = None \<and>
   executablePath sample_host sample_disk sampled = ([], None)"
  by (simp add: executablePath_def sample_host_def sample_disk_def sampled_def os_Stat_def)

section \<open>The privilege check\<close>

text \<open>
  C10. \<open>checkPrivileges\<close> returns true and no error exactly when \<open>id -g\<close> succeeds
  and its trimmed output parses as the unsigned number 0. It returns false with
  \<open>ErrRootPrivileges\<close> when the output parses to a nonzero group id, and false with
  \<open>ErrUnsupportedSystem\<close> when the command fails or the output does not parse.
\<close>

theorem checkPrivileges_spec:
  "exec_Command e (cmdlog w) [''id'', ''-g''] = (out, err) \<Longrightarrow>
   (fst (checkPrivileges e w) = (True, None) \<longleftrightarrow>
      err = None \<and> ParseUint (TrimSpace out) 32 = Inr 0) \<and>
   (\<forall>gid. err = None \<and> ParseUint (TrimSpace out) 32 = Inr gid \<and> gid \<noteq> 0 \<longrightarrow>
      fst (checkPrivileges e w) = (False, Some ErrRootPrivileges)) \<and>
   (err \<noteq> None \<or> (\<exists>parseErr. ParseUint (TrimSpace out) 32 = Inl parseErr) \<longrightarrow>
      fst (checkPrivileges e w) = (False, Some ErrUnsupportedSystem))"
  by (auto simp: checkPrivileges_def exec_Output_def Let_def split: sum.splits)

theorem checkPrivileges_spec_witness:
  "fst (checkPrivileges sample_host sample_disk) = (True, None) \<and>
   fst (checkPrivileges (sample_host\<lparr>exec_Command := \<lambda>h a. (''1000'', None)\<rparr>) sample_disk) =
     (False, Some ErrRootPrivileges) \<and>
   fst (checkPrivileges (sample_host\<lparr>exec_Command := \<lambda>h a. (''root'', None)\<rparr>) sample_disk) =
     (False, Some ErrUnsupportedSystem) \<and>
   fst (checkPrivileges
          (sample_host\<lparr>exec_Command := \<lambda>h a. (''0'', Some (ExternalError ''exit status 1''))\<rparr>)
          sample_disk) =
     (False, Some ErrUnsupportedSystem)"
proof -
  have p1000: "ParseUint (TrimSpace ''1000'') 32 = Inr 1000"
    by (simp add: TrimSpace_def space_runes_def ParseUint_def decimal_def is_digit_def)
  have proot: "ParseUint (TrimSpace ''root'') 32 = Inl (ExternalError ''invalid syntax'')"
    by (simp add: TrimSpace_def space_runes_def ParseUint_def decimal_def is_digit_def)
  have a: "fst (checkPrivileges sample_host sample_disk) = (True, None)"
    using checkPrivileges_spec [OF sample_id_g] sample_gid_parses by blast
  have b: "fst (checkPrivileges (sample_host\<lparr>exec_Command := \<lambda>h a. (''1000'', None)\<rparr>)
               sample_disk) = (False, Some ErrRootPrivileges)"
    using checkPrivileges_spec
      [of "sample_host\<lparr>exec_Command := \<lambda>h a. (''1000'', None)\<rparr>" sample_disk "''1000''" None]
      p1000 by simp
  have c: "fst (checkPrivileges (sample_host\<lparr>exec_Command := \<lambda>h a. (''root'', None)\<rparr>)
               sample_disk) = (False, Some ErrUnsupportedSystem)"
    using checkPrivileges_spec
      [of "sample_host\<lparr>exec_Command := \<lambda>h a. (''root'', None)\<rparr>" sample_disk "''root''" None]
      proot by simp
  have d: "fst (checkPrivileges
                 (sample_host\<lparr>exec_Command := \<lambda>h a. (''0'', Some (ExternalError ''exit status 1''))\<rparr>)
                 sample_disk) = (False, Some ErrUnsupportedSystem)"
    using checkPrivileges_spec
      [of "sample_host\<lparr>exec_Command := \<lambda>h a. (''0'', Some (ExternalError ''exit status 1''))\<rparr>"
          sample_disk "''0''" "Some (ExternalError ''exit status 1'')"]
    by simp
  from a b c d show ?thesis by blast
qed

text \<open>
  C3. For every backend and each of Install, Remove, Start, Stop and Status: when the
  privilege check does not pass, the operation returns the error of the check,
  whatever the installed state and the runtime status are. Nothing but \<open>id -g\<close>
  has been run by then and no file has been touched.
\<close>

theorem privilege_gate_first:
  assumes "checkPrivileges e w = ((False, err), w1)"
  shows "Install d e w args =
           (Returns (''Install '' @ description (properties_of d) @ '':'' @ failed, err), w1) \<and>
         Remove d e w =
           (Returns (''Removing '' @ description (properties_of d) @ '':'' @ failed, err), w1) \<and>
         Start d e w =
           (Returns (''Starting '' @ description (properties_of d) @ '':'' @ failed, err), w1) \<and>
         Stop d e w =
           (Returns (''Stopping '' @ description (properties_of d) @ '':'' @ failed, err), w1) \<and>
         Status d e w = (Returns ([], err), w1) \<and>
         files w1 = files w \<and> cmdlog w1 = cmdlog w @ [[''id'', ''-g'']]"
proof -
  have w1: "w1 = w\<lparr>cmdlog := cmdlog w @ [[''id'', ''-g'']]\<rparr>"
    using assms checkPrivileges_world [of e w] by simp
  show ?thesis
  proof (cases d)
    case (SystemdService svc)
    with assms w1 show ?thesis
      by (simp add: returned_def SystemdService_Install_def SystemdService_Remove_def
          SystemdService_Start_def SystemdService_Stop_def SystemdService_Status_def)
  next
    case (UpstartService svc)
    with assms w1 show ?thesis
      by (simp add: returned_def UpstartService_Install_def UpstartService_Remove_def
          UpstartService_Start_def UpstartService_Stop_def UpstartService_Status_def)
  next
    case (SystemvService svc)
    with assms w1 show ?thesis
      by (simp add: returned_def SystemvService_Install_def SystemvService_Remove_def
          SystemvService_Start_def SystemvService_Stop_def SystemvService_Status_def)
  next
    case (DarwinService svc)
    with assms w1 show ?thesis
      by (simp add: returned_def DarwinService_Install_def DarwinService_Remove_def
          DarwinService_Start_def DarwinService_Stop_def DarwinService_Status_def)
  next
    case (DaemonService svc)
    with assms w1 show ?thesis
      by (simp add: returned_def DaemonService_Install_def DaemonService_Remove_def
          DaemonService_Start_def DaemonService_Stop_def DaemonService_Status_def)
  qed
qed

lemma unprivileged_check:
  "checkPrivileges unprivileged_host sample_disk =
     ((False, Some ErrRootPrivileges), sample_disk\<lparr>cmdlog := [[''id'', ''-g'']]\<rparr>)"
  by (simp add: checkPrivileges_def exec_Output_def unprivileged_host_def sample_disk_def
      TrimSpace_def space_runes_def ParseUint_def decimal_def is_digit_def)

theorem privilege_gate_first_witness:
  "Install (SystemdService sampled) unprivileged_host sample_disk [] =
     (Returns (''Install Sample Daemon:'' @ failed, Some ErrRootPrivileges),
      sample_disk\<lparr>cmdlog := [[''id'', ''-g'']]\<rparr>) \<and>
   Remove (SystemvService sampled) unprivileged_host sample_disk =
     (Returns (''Removing Sample Daemon:'' @ failed, Some ErrRootPrivileges),
      sample_disk\<lparr>cmdlog := [[''id'', ''-g'']]\<rparr>) \<and>
   Start (DaemonService sampled) unprivileged_host sample_disk =
     (Returns (''Starting Sample Daemon:'' @ failed, Some ErrRootPrivileges),
      sample_disk\<lparr>cmdlog := [[''id'', ''-g'']]\<rparr>) \<and>
   Stop (UpstartService sampled) unprivileged_host sample_disk =
     (Returns (''Stopping Sample Daemon:'' @ failed, Some ErrRootPrivileges),
      sample_disk\<lparr>cmdlog := [[''id'', ''-g'']]\<rparr>) \<and>
   Status (DarwinService sampled) unprivileged_host sample_disk =
     (Returns ([], Some ErrRootPrivileges), sample_disk\<lparr>cmdlog := [[''id'', ''-g'']]\<rparr>)"
  using privilege_gate_first [OF unprivileged_check, of "SystemdService sampled" "[]"]
    privilege_gate_first [OF unprivileged_check, of "SystemvService sampled" "[]"]
    privilege_gate_first [OF unprivileged_check, of "DaemonService sampled" "[]"]
    privilege_gate_first [OF unprivileged_check, of "UpstartService sampled" "[]"]
    privilege_gate_first [OF unprivileged_check, of "DarwinService sampled" "[]"]
  by (simp add: sampled_def)

section \<open>The platform selector\<close>

text \<open>
  C6. On Linux \<open>newDaemon\<close> never returns an error. It binds the systemd backend
  when the systemd runtime directory is present (also when the upstart binary is
  present too), the upstart backend when only \<open>/sbin/initctl\<close> is present, and the
  SysV backend when neither is.
\<close>

theorem newDaemon_priority:
  "snd (newDaemon w nm descr args deps) = None \<and>
   (os_Stat w ''/run/systemd/system'' = None \<longrightarrow>
      fst (newDaemon w nm descr args deps) =
        SystemdService \<lparr>name = nm, description = descr, arguments = args, dependencies = deps\<rparr>) \<and>
   (os_Stat w ''/run/systemd/system'' \<noteq> None \<and> os_Stat w ''/sbin/initctl'' = None \<longrightarrow>
      fst (newDaemon w nm descr args deps) =
        UpstartService \<lparr>name = nm, description = descr, arguments = args, dependencies = deps\<rparr>) \<and>
   (os_Stat w ''/run/systemd/system'' \<noteq> None \<and> os_Stat w ''/sbin/initctl'' \<noteq> None \<longrightarrow>
      fst (newDaemon w nm descr args deps) =
        SystemvService \<lparr>name = nm, description = descr, arguments = args, dependencies = deps\<rparr>)"
  by (simp add: newDaemon_def)

theorem newDaemon_priority_witness:
  "newDaemon both_markers ''sampled'' ''Sample Daemon'' [] [''network''] =
     (SystemdService sampled, None) \<and>
   newDaemon upstart_marker ''sampled'' ''Sample Daemon'' [] [''network''] =
     (UpstartService sampled, None) \<and>
   newDaemon sample_disk ''sampled'' ''Sample Daemon'' [] [''network''] =
     (SystemvService sampled, None)"
proof -
  have both: "os_Stat both_markers ''/run/systemd/system'' = None"
    by (simp add: os_Stat_def both_markers_def)
  have up: "os_Stat upstart_marker ''/run/systemd/system'' \<noteq> None \<and>
            os_Stat upstart_marker ''/sbin/initctl'' = None"
    by (simp add: os_Stat_def upstart_marker_def)
  have none: "os_Stat sample_disk ''/run/systemd/system'' \<noteq> None \<and>
              os_Stat sample_disk ''/sbin/initctl'' \<noteq> None"
    by (simp add: os_Stat_def sample_disk_def)
  have "fst (newDaemon both_markers ''sampled'' ''Sample Daemon'' [] [''network'']) =
          SystemdService sampled"
    using newDaemon_priority [of both_markers "''sampled''" "''Sample Daemon''" "[]" "[''network'']"]
      both by (simp add: sampled_def)
  moreover have "fst (newDaemon upstart_marker ''sampled'' ''Sample Daemon'' [] [''network'']) =
          UpstartService sampled"
    using newDaemon_priority [of upstart_marker "''sampled''" "''Sample Daemon''" "[]" "[''network'']"]
      up by (simp add: sampled_def)
  moreover have "fst (newDaemon sample_disk ''sampled'' ''Sample Daemon'' [] [''network'']) =
          SystemvService sampled"
    using newDaemon_priority [of sample_disk "''sampled''" "''Sample Daemon''" "[]" "[''network'']"]
      none by (simp add: sampled_def)
  moreover have "snd (newDaemon both_markers ''sampled'' ''Sample Daemon'' [] [''network'']) = None"
    "snd (newDaemon upstart_marker ''sampled'' ''Sample Daemon'' [] [''network'']) = None"
    "snd (newDaemon sample_disk ''sampled'' ''Sample Daemon'' [] [''network'']) = None"
    using newDaemon_priority by blast+
  ultimately show ?thesis
    by (metis prod.collapse)
qed

section \<open>Status derivation\<close>

text \<open>
  \<open>pid_text_at\<close> says that the text is the literal prefix, a non-empty run of
  digits, the literal suffix and anything after it. The search of \<open>checkRunning\<close>
  for the pid finds the leftmost place where the output reads so, and the whole number.
\<close>

lemma pid_text_at_iff:
  "pid_text_at pre post s \<longleftrightarrow>
     (\<exists>ds r. s = pre @ ds @ post @ r \<and> ds \<noteq> [] \<and> list_all is_digit ds)"
proof
  assume "pid_text_at pre post s"
  then have pre: "prefix pre s"
    and ex: "list_ex (\<lambda>n. length pre + n \<le> length s \<and>
                     list_all is_digit (take n (drop (length pre) s)) \<and>
                     prefix post (drop (length pre + n) s)) [1..<Suc (length s)]"
    by (simp_all add: pid_text_at_def split: if_splits)
  from ex obtain n where n: "1 \<le> n" "length pre + n \<le> length s"
    "list_all is_digit (take n (drop (length pre) s))"
    "prefix post (drop (length pre + n) s)"
    unfolding list_ex_iff by auto
  from n(4) obtain r where r: "drop (length pre + n) s = post @ r"
    by (auto simp: prefix_def)
  from pre have s: "s = pre @ drop (length pre) s"
    by (auto simp: prefix_def)
  have "drop (length pre) s = take n (drop (length pre) s) @ drop n (drop (length pre) s)"
    by (rule append_take_drop_id [symmetric])
  moreover have "drop n (drop (length pre) s) = post @ r"
    using r by (simp add: add.commute)
  ultimately have "s = pre @ take n (drop (length pre) s) @ post @ r"
    using s by metis
  moreover have "take n (drop (length pre) s) \<noteq> []"
    using n(1,2) by auto
  ultimately show "\<exists>ds r. s = pre @ ds @ post @ r \<and> ds \<noteq> [] \<and> list_all is_digit ds"
    using n(3) by blast
next
  assume "\<exists>ds r. s = pre @ ds @ post @ r \<and> ds \<noteq> [] \<and> list_all is_digit ds"
  then obtain ds r where s: "s = pre @ ds @ post @ r" and ds: "ds \<noteq> []" "list_all is_digit ds"
    by blast
  have "1 \<le> length ds"
    using ds(1) by (cases ds) simp_all
  moreover have "length ds \<le> length s"
    by (simp add: s)
  ultimately have mem: "length ds \<in> set [1..<Suc (length s)]"
    by auto
  have "list_ex (\<lambda>n. length pre + n \<le> length s \<and>
                     list_all is_digit (take n (drop (length pre) s)) \<and>
                     prefix post (drop (length pre + n) s)) [1..<Suc (length s)]"
    unfolding list_ex_iff
  proof (rule bexI [OF _ mem])
    show "length pre + length ds \<le> length s \<and>
          list_all is_digit (take (length ds) (drop (length pre) s)) \<and>
          prefix post (drop (length pre + length ds) s)"
      using ds(2) by (simp add: s)
  qed
  then show "pid_text_at pre post s"
    by (simp add: pid_text_at_def s)
qed

lemma match_here_text:
  assumes "match_here pre post s = Some ds"
  shows "pid_text_at pre post s"
proof -
  let ?r = "drop (length pre) s"
  from assms have pre: "prefix pre s"
    and ds: "ds = takeWhile is_digit ?r" "ds \<noteq> []"
    and post: "prefix post (dropWhile is_digit ?r)"
    by (auto simp: match_here_def Let_def split: if_splits)
  have len: "length ds \<le> length ?r"
    unfolding ds(1) by (rule length_takeWhile_le)
  have take: "take (length ds) ?r = ds"
    unfolding ds(1) by (metis append_eq_conv_conj takeWhile_dropWhile_id)
  have drop: "drop (length pre + length ds) s = dropWhile is_digit ?r"
    unfolding ds(1) by (simp add: dropWhile_eq_drop add.commute)
  have digits: "list_all is_digit ds"
    unfolding ds(1) by (simp add: list_all_iff) (meson set_takeWhileD)
  have mem: "length ds \<in> set [1..<Suc (length s)]"
    using ds(2) len by (cases ds) auto
  have bound: "length pre + length ds \<le> length s"
    using len pre by (auto simp: prefix_def)
  have "list_ex (\<lambda>n. length pre + n \<le> length s \<and>
                     list_all is_digit (take n (drop (length pre) s)) \<and>
                     prefix post (drop (length pre + n) s))
          [1..<Suc (length s)]"
    unfolding list_ex_iff
  proof (rule bexI [OF _ mem])
    show "length pre + length ds \<le> length s \<and>
          list_all is_digit (take (length ds) (drop (length pre) s)) \<and>
          prefix post (drop (length pre + length ds) s)"
      using bound digits post by (simp only: take drop)
  qed
  with pre show ?thesis
    by (simp only: pid_text_at_def if_True)
qed

lemma match_here_at_number:
  assumes "ds \<noteq> []" and "list_all is_digit ds" and "prefix post rest"
    and "rest = [] \<or> \<not> is_digit (hd rest)"
  shows "match_here pre post (pre @ ds @ rest) = Some ds"
proof -
  have "takeWhile is_digit (ds @ rest) = ds"
    using assms(2,4) by (cases rest) (auto simp: list_all_iff)
  moreover have "dropWhile is_digit (ds @ rest) = rest"
    using assms(2,4) by (cases rest) (auto simp: list_all_iff)
  ultimately show ?thesis
    using assms(1,3) by (simp add: match_here_def)
qed

lemma FindStringSubmatch_here:
  "match_here pre post s = Some ds \<Longrightarrow> FindStringSubmatch pre post s = [pre @ ds @ post, ds]"
  by (cases s) simp_all

lemma FindStringSubmatch_first:
  assumes "no_pid_text_within pre post before tail"
    and "match_here pre post tail = Some ds"
  shows "FindStringSubmatch pre post (before @ tail) = [pre @ ds @ post, ds]"
  using assms
proof (induction before)
  case Nil
  then show ?case by (simp add: FindStringSubmatch_here)
next
  case (Cons c cs)
  then have "match_here pre post (c # cs @ tail) = None"
    using match_here_text [of pre post "c # cs @ tail"] by (cases "match_here pre post (c # cs @ tail)") auto
  with Cons show ?case by simp
qed

lemma FindStringSubmatch_text:
  assumes "no_pid_text_within pre post before (pre @ ds @ rest)"
    and "ds \<noteq> []" and "list_all is_digit ds" and "prefix post rest"
    and "rest = [] \<or> \<not> is_digit (hd rest)"
  shows "FindStringSubmatch pre post (before @ pre @ ds @ rest) = [pre @ ds @ post, ds]"
  using FindStringSubmatch_first [OF assms(1) match_here_at_number [OF assms(2-5)]] .

lemma checkRunning_cases:
  assumes "status_command d e w = Returns argv"
    and "exec_Command e (cmdlog w) argv = (out, None)"
  shows "(regexp_MatchString e (presence_pattern d) out = Inr True \<and>
          FindStringSubmatch (fst (pid_pattern d)) (snd (pid_pattern d)) out = [m, pid] \<longrightarrow>
            fst (checkRunning d e w) = Returns (''Service (pid  '' @ pid @ '') is running...'', True)) \<and>
         (regexp_MatchString e (presence_pattern d) out \<noteq> Inr True \<longrightarrow>
            fst (checkRunning d e w) = Returns (''Service is stopped'', False))"
proof (cases d)
  case (SystemdService svc)
  with assms show ?thesis
    by (auto simp: returned_def SystemdService_checkRunning_def exec_Output_def)
next
  case (UpstartService svc)
  with assms show ?thesis
    by (auto simp: returned_def UpstartService_checkRunning_def exec_Output_def)
next
  case (SystemvService svc)
  with assms show ?thesis
    by (auto simp: returned_def SystemvService_checkRunning_def exec_Output_def)
next
  case (DarwinService svc)
  with assms show ?thesis
    by (auto simp: returned_def DarwinService_checkRunning_def exec_Output_def)
next
  case (DaemonService svc)
  with assms show ?thesis
    by (auto simp: DaemonService_checkRunning_def exec_Output_def split: outcome.splits)
qed



text \<open>
  C7. The status parser of every backend. When the native status command has run
  without error, its output matches the backend's presence pattern, and the output
  reads \<open>before\<close>, the literal text of the backend's pid pattern, the decimal number
  \<open>pid\<close> (1234 in the claim), and a rest that ends the number, with no match of the
  pid pattern starting earlier, then \<open>checkRunning\<close> reports running with that pid.
  When the output has no presence match it reports stopped, without a pid.
\<close>

theorem checkRunning_parses_status:
  assumes "status_command d e w = Returns argv"
    and "exec_Command e (cmdlog w) argv = (out, None)"
  shows "(regexp_MatchString e (presence_pattern d) out = Inr True \<and>
          out = before @ fst (pid_pattern d) @ pid @ rest \<and>
          pid \<noteq> [] \<and> list_all is_digit pid \<and>
          prefix (snd (pid_pattern d)) rest \<and> (rest = [] \<or> \<not> is_digit (hd rest)) \<and>
          no_pid_text_within (fst (pid_pattern d)) (snd (pid_pattern d)) before
            (fst (pid_pattern d) @ pid @ rest) \<longrightarrow>
            fst (checkRunning d e w) =
              Returns (''Service (pid  '' @ pid @ '') is running...'', True)) \<and>
         (regexp_MatchString e (presence_pattern d) out \<noteq> Inr True \<longrightarrow>
            fst (checkRunning d e w) = Returns (''Service is stopped'', False))"
proof (intro conjI impI)
  assume h: "regexp_MatchString e (presence_pattern d) out = Inr True \<and>
          out = before @ fst (pid_pattern d) @ pid @ rest \<and>
          pid \<noteq> [] \<and> list_all is_digit pid \<and>
          prefix (snd (pid_pattern d)) rest \<and> (rest = [] \<or> \<not> is_digit (hd rest)) \<and>
          no_pid_text_within (fst (pid_pattern d)) (snd (pid_pattern d)) before
            (fst (pid_pattern d) @ pid @ rest)"
  then have found: "FindStringSubmatch (fst (pid_pattern d)) (snd (pid_pattern d)) out =
      [fst (pid_pattern d) @ pid @ snd (pid_pattern d), pid]"
    using FindStringSubmatch_text [of "fst (pid_pattern d)" "snd (pid_pattern d)" before pid rest]
    by simp
  from h have present: "regexp_MatchString e (presence_pattern d) out = Inr True"
    by (rule conjunct1)
  from checkRunning_cases [OF assms, THEN conjunct1, rule_format, OF conjI [OF present found]]
  show "fst (checkRunning d e w) = Returns (''Service (pid  '' @ pid @ '') is running...'', True)" .
next
  assume "regexp_MatchString e (presence_pattern d) out \<noteq> Inr True"
  with checkRunning_cases [OF assms]
  show "fst (checkRunning d e w) = Returns (''Service is stopped'', False)"
    by simp
qed


theorem checkRunning_parses_status_witness:
  "fst (checkRunning (SystemdService sampled) sample_host sample_disk) =
     Returns (''Service (pid  1234) is running...'', True) \<and>
   fst (checkRunning (UpstartService sampled) sample_host sample_disk) =
     Returns (''Service (pid  987) is running...'', True) \<and>
   fst (checkRunning (SystemvService sampled) sample_host sample_disk) =
     Returns (''Service (pid  1234) is running...'', True) \<and>
   fst (checkRunning (DarwinService sampled) sample_host sample_disk) =
     Returns (''Service (pid  56789) is running...'', True) \<and>
   fst (checkRunning (DaemonService sampled) sample_host sample_disk) =
     Returns (''Service (pid  7) is running...'', True) \<and>
   fst (checkRunning (SystemvService (sampled\<lparr>name := ''absent''\<rparr>)) sample_host sample_disk) =
     Returns (''Service is stopped'', False)"
proof -
  have a: "fst (checkRunning (SystemdService sampled) sample_host sample_disk) =
     Returns (''Service (pid  1234) is running...'', True)"
    using checkRunning_parses_status [of "SystemdService sampled" sample_host sample_disk
        "[''systemctl'', ''status'', ''sampled.service'']"
        "''Active: active (running) Main PID: 1234 (sampled)''"
        "''Active: active (running) ''" "''1234''" "'' (sampled)''"]
    by (simp add: sample_defs pid_text_at_def is_digit_def)
  have b: "fst (checkRunning (UpstartService sampled) sample_host sample_disk) =
     Returns (''Service (pid  987) is running...'', True)"
    using checkRunning_parses_status [of "UpstartService sampled" sample_host sample_disk
        "[''status'', ''sampled'']"
        "''sampled start/running, process 987''" "''sampled start/running, ''" "''987''" "[]"]
    by (simp add: sample_defs pid_text_at_def is_digit_def)
  have c: "fst (checkRunning (SystemvService sampled) sample_host sample_disk) =
     Returns (''Service (pid  1234) is running...'', True)"
    using checkRunning_parses_status [of "SystemvService sampled" sample_host sample_disk
        "[''service'', ''sampled'', ''status'']"
        "''sampled (pid  1234) is running...''" "''sampled (''" "''1234''" "'') is running...''"]
    by (simp add: sample_defs pid_text_at_def is_digit_def)
  have d: "fst (checkRunning (DarwinService sampled) sample_host sample_disk) =
     Returns (''Service (pid  56789) is running...'', True)"
    using checkRunning_parses_status [of "DarwinService sampled" sample_host sample_disk
        "[''launchctl'', ''list'', ''sampled'']"
        "''PID'' @ [CHR 0x22] @ '' = 56789; Label = sampled;''"
        "[]" "''56789''" "''; Label = sampled;''"]
    by (simp add: sample_defs pid_text_at_def is_digit_def)
  have e: "fst (checkRunning (DaemonService sampled) sample_host sample_disk) =
     Returns (''Service (pid  7) is running...'', True)"
    using checkRunning_parses_status [of "DaemonService sampled" sample_host sample_disk
        "[''service'', ''sampled'', ''onestatus'']"
        "''sampled (pid  7) is running...''" "''sampled (''" "''7''" "'') is running...''"]
    by (simp add: sample_defs pid_text_at_def is_digit_def DaemonService_getCmd_def
        DaemonService_isEnabled_def os_Open_def)
  have f: "fst (checkRunning (SystemvService (sampled\<lparr>name := ''absent''\<rparr>)) sample_host
             sample_disk) = Returns (''Service is stopped'', False)"
    using checkRunning_parses_status [of "SystemvService (sampled\<lparr>name := ''absent''\<rparr>)"
        sample_host sample_disk "[''service'', ''absent'', ''status'']" "[]"]
    by (simp add: sample_defs)
  from a b c d e f show ?thesis by blast
qed

section \<open>Start and Status\<close>

text \<open>
  What Start does once the privilege check has passed, in terms of the status that
  \<open>checkRunning\<close> derives: \<open>ErrNotInstalled\<close> when the descriptor file is absent,
  \<open>ErrAlreadyRunning\<close> when the derived status is running; when it is stopped the
  native start command runs exactly once, after the status command, and its error is
  returned as it is. The status derivation of the four backends other than FreeBSD
  always returns (\<open>checkRunning_returns\<close> below).
\<close>

lemma Start_preconditions:
  assumes "checkPrivileges e w = ((True, x), w1)"
  shows "(\<not> isInstalled d w \<longrightarrow>
            Start d e w =
              (Returns (''Starting '' @ description (properties_of d) @ '':'' @ failed,
                 Some ErrNotInstalled), w1)) \<and>
         (\<forall>s w2. isInstalled d w \<and> checkRunning d e w1 = (Returns (s, True), w2) \<longrightarrow>
            Start d e w =
              (Returns (''Starting '' @ description (properties_of d) @ '':'' @ failed,
                 Some ErrAlreadyRunning), w2)) \<and>
         (\<forall>s w2. isInstalled d w \<and> checkRunning d e w1 = (Returns (s, False), w2) \<longrightarrow>
            (\<exists>argv. start_command d e w2 = Returns argv \<and>
               Start d e w =
                 (Returns (''Starting '' @ description (properties_of d) @ '':'' @
                     (if snd (exec_Command e (cmdlog w2) argv) = None then success else failed),
                   snd (exec_Command e (cmdlog w2) argv)),
                  w2\<lparr>cmdlog := cmdlog w2 @ [argv]\<rparr>)))"
proof -
  have inst: "isInstalled d w1 = isInstalled d w"
    using assms by (intro isInstalled_files checkPrivileges_files)
  show ?thesis
  proof (cases d)
    case (SystemdService svc)
    with assms inst show ?thesis
      by (auto simp: SystemdService_Start_def exec_Run_def split: option.splits)
  next
    case (UpstartService svc)
    with assms inst show ?thesis
      by (auto simp: UpstartService_Start_def exec_Run_def split: option.splits)
  next
    case (SystemvService svc)
    with assms inst show ?thesis
      by (auto simp: SystemvService_Start_def exec_Run_def split: option.splits)
  next
    case (DarwinService svc)
    with assms inst show ?thesis
      by (auto simp: DarwinService_Start_def exec_Run_def split: option.splits)
  next
    case d: (DaemonService svc)
    have third: "\<exists>argv. start_command d e w2 = Returns argv \<and>
               Start d e w =
                 (Returns (''Starting '' @ description (properties_of d) @ '':'' @
                     (if snd (exec_Command e (cmdlog w2) argv) = None then success else failed),
                   snd (exec_Command e (cmdlog w2) argv)),
                  w2\<lparr>cmdlog := cmdlog w2 @ [argv]\<rparr>)"
      if run: "isInstalled d w" "checkRunning d e w1 = (Returns (s, False), w2)" for s w2
    proof -
      from run(2) d have cr: "DaemonService_checkRunning e w1 svc = (Returns (s, False), w2)"
        by simp
      from DaemonService_checkRunning_world [OF cr]
      obtain c where "files w2 = files w1" "DaemonService_getCmd e w1 svc ''status'' = Returns c"
        by blast
      then obtain c' where c': "DaemonService_getCmd e w2 svc ''start'' = Returns c'"
        using getCmd_returns_any getCmd_files by metis
      with assms inst run(1) cr d show ?thesis
        by (auto simp: DaemonService_Start_def exec_Run_def split: option.splits)
    qed
    from assms inst d have "(\<not> isInstalled d w \<longrightarrow>
            Start d e w =
              (Returns (''Starting '' @ description (properties_of d) @ '':'' @ failed,
                 Some ErrNotInstalled), w1))"
      by (simp add: DaemonService_Start_def)
    moreover from assms inst d have "(\<forall>s w2. isInstalled d w \<and> checkRunning d e w1 = (Returns (s, True), w2) \<longrightarrow>
            Start d e w =
              (Returns (''Starting '' @ description (properties_of d) @ '':'' @ failed,
                 Some ErrAlreadyRunning), w2))"
      by (simp add: DaemonService_Start_def)
    ultimately show ?thesis using third by blast
  qed
qed


lemma Start_preconditions_examples:
  "Start (SystemdService sampled) sample_host sample_disk =
     (Returns (''Starting Sample Daemon:'' @ failed, Some ErrNotInstalled),
      sample_disk\<lparr>cmdlog := [[''id'', ''-g'']]\<rparr>) \<and>
   Start (SystemdService sampled) sample_host installed_disk =
     (Returns (''Starting Sample Daemon:'' @ failed, Some ErrAlreadyRunning),
      installed_disk\<lparr>cmdlog :=
        [[''id'', ''-g''], [''systemctl'', ''status'', ''sampled.service'']]\<rparr>) \<and>
   Start (SystemdService idle) sample_host installed_disk =
     (Returns (''Starting Sample Daemon:'' @ success, None),
      installed_disk\<lparr>cmdlog :=
        [[''id'', ''-g''], [''systemctl'', ''status'', ''idle.service''],
         [''systemctl'', ''start'', ''idle.service'']]\<rparr>) \<and>
   Start (SystemdService idle) failing_start_host installed_disk =
     (Returns (''Starting Sample Daemon:'' @ failed, Some (ExternalError ''exit status 1'')),
      installed_disk\<lparr>cmdlog :=
        [[''id'', ''-g''], [''systemctl'', ''status'', ''idle.service''],
         [''systemctl'', ''start'', ''idle.service'']]\<rparr>)"
proof -
  have a: "Start (SystemdService sampled) sample_host sample_disk =
     (Returns (''Starting Sample Daemon:'' @ failed, Some ErrNotInstalled),
      sample_disk\<lparr>cmdlog := [[''id'', ''-g'']]\<rparr>)"
    using Start_preconditions [OF privileged_check(2), of "SystemdService sampled"]
    by (simp add: SystemdService_isInstalled_def SystemdService_servicePath_def os_Stat_def
        sample_defs)
  have b: "Start (SystemdService sampled) sample_host installed_disk =
     (Returns (''Starting Sample Daemon:'' @ failed, Some ErrAlreadyRunning),
      installed_disk\<lparr>cmdlog :=
        [[''id'', ''-g''], [''systemctl'', ''status'', ''sampled.service'']]\<rparr>)"
    using Start_preconditions [OF privileged_check(1), of "SystemdService sampled"]
    by (simp add: SystemdService_isInstalled_def SystemdService_servicePath_def os_Stat_def
        SystemdService_checkRunning_def exec_Output_def match_here_def is_digit_def
        sample_defs installed_disk_def)
  have c: "Start (SystemdService idle) sample_host installed_disk =
     (Returns (''Starting Sample Daemon:'' @ success, None),
      installed_disk\<lparr>cmdlog :=
        [[''id'', ''-g''], [''systemctl'', ''status'', ''idle.service''],
         [''systemctl'', ''start'', ''idle.service'']]\<rparr>)"
    using Start_preconditions [OF privileged_check(1), of "SystemdService idle"]
    by (simp add: SystemdService_isInstalled_def SystemdService_servicePath_def os_Stat_def
        SystemdService_checkRunning_def exec_Output_def match_here_def is_digit_def
        sample_defs installed_disk_def idle_def)
  have d: "Start (SystemdService idle) failing_start_host installed_disk =
     (Returns (''Starting Sample Daemon:'' @ failed, Some (ExternalError ''exit status 1'')),
      installed_disk\<lparr>cmdlog :=
        [[''id'', ''-g''], [''systemctl'', ''status'', ''idle.service''],
         [''systemctl'', ''start'', ''idle.service'']]\<rparr>)"
    using Start_preconditions [OF privileged_check(3), of "SystemdService idle"]
    by (simp add: SystemdService_isInstalled_def SystemdService_servicePath_def os_Stat_def
        SystemdService_checkRunning_def exec_Output_def match_here_def is_digit_def
        sample_defs installed_disk_def idle_def failing_start_host_def)
  from a b c d show ?thesis by blast
qed


text \<open>
  What Status does when the status derivation returns: the derived description with a
  nil error, and \<open>Service is stopped\<close> when the native status command fails. Only
  the FreeBSD backend has a status derivation that may not return.
\<close>

lemma Status_returns_description:
  assumes "checkPrivileges e w = ((True, x), w1)"
    and "isInstalled d w"
    and "checkRunning d e w1 = (Returns (s, r), w2)"
  shows "Status d e w = (Returns (s, None), w2)"
proof -
  have inst: "isInstalled d w1"
    using assms(1,2) isInstalled_files checkPrivileges_files by blast
  show ?thesis
    using assms(1,3) inst
    by (cases d)
      (simp_all add: SystemdService_Status_def UpstartService_Status_def
        SystemvService_Status_def DarwinService_Status_def DaemonService_Status_def)
qed

lemma checkRunning_failing_command:
  assumes "status_command d e w = Returns argv"
    and "snd (exec_Command e (cmdlog w) argv) \<noteq> None"
  shows "fst (checkRunning d e w) = Returns (''Service is stopped'', False)"
  using assms
  by (cases d)
    (auto simp: returned_def SystemdService_checkRunning_def UpstartService_checkRunning_def
      SystemvService_checkRunning_def DarwinService_checkRunning_def
      DaemonService_checkRunning_def exec_Output_def split: prod.splits outcome.splits)

lemma checkRunning_returns:
  assumes "\<forall>svc. d \<noteq> DaemonService svc"
  shows "\<exists>r. fst (checkRunning d e w) = Returns r"
  using assms by (cases d) (simp_all add: returned_def)

text \<open>
  C4. The claim: for every backend, Start fails with \<open>ErrNotInstalled\<close> when the
  descriptor file is absent, with \<open>ErrAlreadyRunning\<close> when the derived status is
  running, and otherwise runs the native start command once. On the FreeBSD backend,
  with the service name \<open>a(\<close>, the descriptor file present and a readable
  \<open>/etc/rc.conf\<close>, the privilege check passes and then the status derivation panics
  in \<open>isEnabled\<close>: Start returns nothing, and only \<open>id -g\<close> has been run.
\<close>

theorem Start_panics_on_uncompilable_name:
  "fst (checkPrivileges strict_host installed_disk) = (True, None) \<and>
   isInstalled (DaemonService unbalanced) installed_disk \<and>
   Start (DaemonService unbalanced) strict_host installed_disk =
     (Panics, installed_disk\<lparr>cmdlog := [[''id'', ''-g'']]\<rparr>)"
proof -
  have inst: "DaemonService_isInstalled (installed_disk\<lparr>cmdlog := c\<rparr>) unbalanced" for c
    by (simp add: DaemonService_isInstalled_def DaemonService_servicePath_def os_Stat_def
        installed_disk_def unbalanced_def sample_defs)
  have cmd: "DaemonService_getCmd strict_host (installed_disk\<lparr>cmdlog := c\<rparr>) unbalanced
               ''status'' = Panics" for c
    by (simp add: DaemonService_getCmd_def DaemonService_isEnabled_def os_Open_def
        strict_host_def installed_disk_def unbalanced_def sample_defs)
  have "Start (DaemonService unbalanced) strict_host installed_disk =
     (Panics, installed_disk\<lparr>cmdlog := [[''id'', ''-g'']]\<rparr>)"
    by (simp add: DaemonService_Start_def privileged_check inst
        DaemonService_checkRunning_def cmd)
  moreover have "isInstalled (DaemonService unbalanced) installed_disk"
    using inst [of "cmdlog installed_disk"] by simp
  ultimately show ?thesis
    by (simp add: privileged_check)
qed

text \<open>
  C5. The claim: for every backend, once the privilege check passes and the descriptor
  file is present, Status returns a description and a nil error. On the FreeBSD
  backend the status derivation goes through \<open>isEnabled\<close>, which drops the error of
  \<open>regexp.Compile\<close>: for the service name \<open>a(\<close> and a readable \<open>/etc/rc.conf\<close>
  the call does not return, it panics.
\<close>

theorem Status_panics_on_uncompilable_name:
  "fst (checkPrivileges strict_host installed_disk) = (True, None) \<and>
   isInstalled (DaemonService unbalanced) installed_disk \<and>
   fst (Status (DaemonService unbalanced) strict_host installed_disk) = Panics"
proof -
  have inst: "DaemonService_isInstalled (installed_disk\<lparr>cmdlog := c\<rparr>) unbalanced" for c
    by (simp add: DaemonService_isInstalled_def DaemonService_servicePath_def os_Stat_def
        installed_disk_def unbalanced_def sample_defs)
  have cmd: "DaemonService_getCmd strict_host (installed_disk\<lparr>cmdlog := c\<rparr>) unbalanced
               ''status'' = Panics" for c
    by (simp add: DaemonService_getCmd_def DaemonService_isEnabled_def os_Open_def
        strict_host_def installed_disk_def unbalanced_def sample_defs)
  have "fst (Status (DaemonService unbalanced) strict_host installed_disk) = Panics"
    by (simp add: DaemonService_Status_def privileged_check inst
        DaemonService_checkRunning_def cmd)
  moreover have "isInstalled (DaemonService unbalanced) installed_disk"
    using inst [of "cmdlog installed_disk"] by simp
  ultimately show ?thesis
    by (simp add: privileged_check)
qed

section \<open>Install\<close>

lemma isInstalled_iff: "isInstalled d w \<longleftrightarrow> files w (servicePath d) \<noteq> None"
  by (cases d)
    (simp_all add: SystemdService_isInstalled_def UpstartService_isInstalled_def
      SystemvService_isInstalled_def DarwinService_isInstalled_def
      DaemonService_isInstalled_def os_Stat_def)

lemma symlink_each_keeps:
  "files w p = Some y \<Longrightarrow> files (symlink_each e w src prio nm levels) p = Some y"
proof (induction levels arbitrary: w)
  case Nil
  then show ?case by simp
next
  case (Cons i rest)
  have "files (snd (os_Symlink e w src (rc_link i prio nm))) p = Some y"
    using Cons.prems by (auto simp: os_Symlink_def split: option.splits)
  from Cons.IH [OF this] show ?case
    by (auto split: prod.splits)
qed

lemma SystemdService_Install_creates:
  assumes "checkPrivileges e w = ((True, x), w1)"
    and "\<not> SystemdService_isInstalled w1 svc"
    and "os_Create_err e (SystemdService_servicePath svc) = None"
    and "SystemdService_Install e w svc args = (r, w')"
  shows "files w' (SystemdService_servicePath svc) \<noteq> None"
  using assms
  by (auto simp: SystemdService_Install_def os_Create_def Template_Execute_def exec_Run_def
      Let_def split: prod.splits option.splits)

lemma UpstartService_Install_creates:
  assumes "checkPrivileges e w = ((True, x), w1)"
    and "\<not> UpstartService_isInstalled w1 svc"
    and "os_Create_err e (UpstartService_servicePath svc) = None"
    and "UpstartService_Install e w svc args = (r, w')"
  shows "files w' (UpstartService_servicePath svc) \<noteq> None"
  using assms
  by (auto simp: UpstartService_Install_def os_Create_def Template_Execute_def
      Let_def split: prod.splits option.splits)

lemma SystemvService_Install_creates:
  assumes "checkPrivileges e w = ((True, x), w1)"
    and "\<not> SystemvService_isInstalled w1 svc"
    and "os_Create_err e (SystemvService_servicePath svc) = None"
    and "SystemvService_Install e w svc args = (r, w')"
  shows "files w' (SystemvService_servicePath svc) \<noteq> None"
  using assms
  by (auto simp: SystemvService_Install_def os_Create_def Template_Execute_def
      Let_def symlink_each_keeps simp del: symlink_each.simps split: prod.splits option.splits)

lemma DarwinService_Install_creates:
  assumes "checkPrivileges e w = ((True, x), w1)"
    and "\<not> DarwinService_isInstalled w1 svc"
    and "os_Create_err e (DarwinService_servicePath svc) = None"
    and "DarwinService_Install e w svc args = (r, w')"
  shows "files w' (DarwinService_servicePath svc) \<noteq> None"
  using assms
  by (auto simp: DarwinService_Install_def os_Create_def Template_Execute_def
      Let_def split: prod.splits option.splits)

lemma DaemonService_Install_creates:
  assumes "checkPrivileges e w = ((True, x), w1)"
    and "\<not> DaemonService_isInstalled w1 svc"
    and "os_Create_err e (DaemonService_servicePath svc) = None"
    and "DaemonService_Install e w svc args = (r, w')"
  shows "files w' (DaemonService_servicePath svc) \<noteq> None"
  using assms
  by (auto simp: DaemonService_Install_def os_Create_def Template_Execute_def
      Let_def split: prod.splits option.splits)

lemma Install_creates:
  assumes "checkPrivileges e w = ((True, x), w1)"
    and "\<not> isInstalled d w"
    and "os_Create_err e (servicePath d) = None"
    and "Install d e w args = (r, w')"
  shows "files w' (servicePath d) \<noteq> None"
proof -
  have inst: "\<not> isInstalled d w1"
    using assms(1,2) isInstalled_files checkPrivileges_files by blast
  show ?thesis
  proof (cases d)
    case (SystemdService svc)
    with assms inst show ?thesis
      using SystemdService_Install_creates [of e w x w1 svc args "(fst (SystemdService_Install e w svc args))" w']
      by (auto simp: returned_def)
  next
    case (UpstartService svc)
    with assms inst show ?thesis
      using UpstartService_Install_creates [of e w x w1 svc args "(fst (UpstartService_Install e w svc args))" w']
      by (auto simp: returned_def)
  next
    case (SystemvService svc)
    with assms inst show ?thesis
      using SystemvService_Install_creates [of e w x w1 svc args "(fst (SystemvService_Install e w svc args))" w']
      by (auto simp: returned_def)
  next
    case (DarwinService svc)
    with assms inst show ?thesis
      using DarwinService_Install_creates [of e w x w1 svc args "(fst (DarwinService_Install e w svc args))" w']
      by (auto simp: returned_def)
  next
    case (DaemonService svc)
    with assms inst show ?thesis
      using DaemonService_Install_creates [of e w x w1 svc args "(fst (DaemonService_Install e w svc args))" w']
      by (auto simp: returned_def)
  qed
qed

lemma Install_when_installed:
  assumes "checkPrivileges e w = ((True, x), w1)" and "isInstalled d w"
  shows "Install d e w args =
           (Returns (''Install '' @ description (properties_of d) @ '':'' @ failed,
              Some ErrAlreadyInstalled), w1)"
proof -
  have inst: "isInstalled d w1"
    using assms isInstalled_files checkPrivileges_files by blast
  show ?thesis
    using assms(1) inst
    by (cases d)
      (simp_all add: returned_def SystemdService_Install_def UpstartService_Install_def
        SystemvService_Install_def DarwinService_Install_def DaemonService_Install_def)
qed

text \<open>
  C9. Install is not atomic on error. When Install of any backend has passed the
  privilege and the already-installed checks and has created the descriptor file, and
  then returns an error (from the path resolution, the template, chmod or the native
  registration), the descriptor file is still there: the service is seen as installed,
  and a further Install that passes the privilege check fails with
  \<open>ErrAlreadyInstalled\<close>.
\<close>

theorem Install_leaves_descriptor_on_error:
  assumes "checkPrivileges e w = ((True, x), w1)"
    and "\<not> isInstalled d w"
    and "os_Create_err e (servicePath d) = None"
    and "Install d e w args = (Returns (msg, Some err), w')"
  shows "isInstalled d w' \<and>
         (\<forall>x' w1' args'. checkPrivileges e w' = ((True, x'), w1') \<longrightarrow>
            Install d e w' args' =
              (Returns (''Install '' @ description (properties_of d) @ '':'' @ failed,
                 Some ErrAlreadyInstalled), w1'))"
proof -
  have "isInstalled d w'"
    using Install_creates [OF assms] by (simp add: isInstalled_iff)
  then show ?thesis
    using Install_when_installed by blast
qed

lemma failing_reload_check:
  "checkPrivileges failing_reload_host w =
     ((True, None), w\<lparr>cmdlog := cmdlog w @ [[''id'', ''-g'']]\<rparr>)"
  by (simp add: checkPrivileges_def exec_Output_def sample_defs failing_reload_host_def
      TrimSpace_def space_runes_def ParseUint_def decimal_def is_digit_def)

lemma failing_reload_Install:
  "Install (SystemdService sampled) failing_reload_host sample_disk [] =
     (Returns (''Install Sample Daemon:'' @ failed, Some (ExternalError ''exit status 1'')),
      sample_disk\<lparr>files := (files sample_disk)(''/etc/systemd/system/sampled.service'' \<mapsto> ''[Unit]''),
        cmdlog := [[''id'', ''-g''], [''systemctl'', ''daemon-reload'']]\<rparr>)"
  apply (simp add: returned_def SystemdService_Install_def failing_reload_check)
  apply (simp add: SystemdService_isInstalled_def SystemdService_servicePath_def os_Stat_def
      os_Create_def executablePath_def Template_Execute_def exec_Run_def
      failing_reload_host_def sample_defs)
  done

theorem Install_leaves_descriptor_on_error_witness:
  "isInstalled (SystemdService sampled)
     (sample_disk\<lparr>files := (files sample_disk)(''/etc/systemd/system/sampled.service'' \<mapsto> ''[Unit]''),
        cmdlog := [[''id'', ''-g''], [''systemctl'', ''daemon-reload'']]\<rparr>) \<and>
   fst (Install (SystemdService sampled) failing_reload_host
     (sample_disk\<lparr>files := (files sample_disk)(''/etc/systemd/system/sampled.service'' \<mapsto> ''[Unit]''),
        cmdlog := [[''id'', ''-g''], [''systemctl'', ''daemon-reload'']]\<rparr>) []) =
     Returns (''Install Sample Daemon:'' @ failed, Some ErrAlreadyInstalled)"
proof -
  have absent: "\<not> isInstalled (SystemdService sampled) sample_disk"
    by (simp add: SystemdService_isInstalled_def SystemdService_servicePath_def os_Stat_def
        sample_defs)
  have create: "os_Create_err failing_reload_host (servicePath (SystemdService sampled)) = None"
    by (simp add: failing_reload_host_def sample_host_def)
  note fact = Install_leaves_descriptor_on_error
    [OF failing_reload_check absent create failing_reload_Install]
  from fact have "isInstalled (SystemdService sampled)
     (sample_disk\<lparr>files := (files sample_disk)(''/etc/systemd/system/sampled.service'' \<mapsto> ''[Unit]''),
        cmdlog := [[''id'', ''-g''], [''systemctl'', ''daemon-reload'']]\<rparr>)"
    by blast
  moreover from fact [THEN conjunct2, rule_format, OF failing_reload_check]
  have "fst (Install (SystemdService sampled) failing_reload_host
     (sample_disk\<lparr>files := (files sample_disk)(''/etc/systemd/system/sampled.service'' \<mapsto> ''[Unit]''),
        cmdlog := [[''id'', ''-g''], [''systemctl'', ''daemon-reload'']]\<rparr>) []) =
     Returns (''Install Sample Daemon:'' @ failed, Some ErrAlreadyInstalled)"
    by (simp add: sampled_def returned_def)
  ultimately show ?thesis
    by blast
qed

section \<open>Registration side effects\<close>








lemma checkPrivileges_not_ok:
  "checkPrivileges e w = ((False, err), w1) \<Longrightarrow> err \<noteq> None"
  by (auto simp: checkPrivileges_def exec_Output_def split: prod.splits sum.splits if_splits)

















section \<open>Template rendering\<close>

lemma executablePath_files:
  assumes "files w' = files w"
  shows "executablePath e w' svc = executablePath e w svc"
proof -
  have stat: "os_Stat w' = os_Stat w"
    using assms by (simp add: os_Stat_def fun_eq_iff)
  show ?thesis
    unfolding executablePath_def stat by (rule refl)
qed

lemma SystemdService_Install_content:
  assumes "SystemdService_Install e w svc args = ((msg, None), w')"
  shows "files w' (SystemdService_servicePath svc) =
           Some (fst (template_Execute e (systemDConfig w)
             (SystemdService_data svc
                (fst (executablePath e
                   (w\<lparr>files := (files w)(SystemdService_servicePath svc \<mapsto> [])\<rparr>) svc))
                args)))"
proof -
  obtain r w1 where cp: "checkPrivileges e w = (r, w1)"
    by (cases "checkPrivileges e w")
  then have w1: "w1 = w\<lparr>cmdlog := cmdlog w @ [[''id'', ''-g'']]\<rparr>"
    using checkPrivileges_world [of e w] by simp
  have path: "executablePath e
      (w1\<lparr>files := (files w1)(SystemdService_servicePath svc \<mapsto> [])\<rparr>) svc =
    executablePath e (w\<lparr>files := (files w)(SystemdService_servicePath svc \<mapsto> [])\<rparr>) svc"
    by (rule executablePath_files) (simp add: w1)
  have tpl: "systemDConfig w1 = systemDConfig w"
    by (simp add: w1)
  from assms cp checkPrivileges_not_ok [of e w _ w1] show ?thesis
    unfolding SystemdService_Install_def os_Create_def Template_Execute_def exec_Run_def Let_def
    by (auto simp: path tpl split: prod.splits option.splits if_splits)
qed

lemma UpstartService_Install_content:
  assumes "UpstartService_Install e w svc args = ((msg, None), w')"
  shows "files w' (UpstartService_servicePath svc) =
           Some (fst (template_Execute e (upstatConfig w)
             (UpstartService_data svc
                (fst (executablePath e
                   (w\<lparr>files := (files w)(UpstartService_servicePath svc \<mapsto> [])\<rparr>) svc))
                args)))"
proof -
  obtain r w1 where cp: "checkPrivileges e w = (r, w1)"
    by (cases "checkPrivileges e w")
  then have w1: "w1 = w\<lparr>cmdlog := cmdlog w @ [[''id'', ''-g'']]\<rparr>"
    using checkPrivileges_world [of e w] by simp
  have path: "executablePath e
      (w1\<lparr>files := (files w1)(UpstartService_servicePath svc \<mapsto> [])\<rparr>) svc =
    executablePath e (w\<lparr>files := (files w)(UpstartService_servicePath svc \<mapsto> [])\<rparr>) svc"
    by (rule executablePath_files) (simp add: w1)
  have tpl: "upstatConfig w1 = upstatConfig w"
    by (simp add: w1)
  from assms cp checkPrivileges_not_ok [of e w _ w1] show ?thesis
    unfolding UpstartService_Install_def os_Create_def Template_Execute_def os_Chmod_def Let_def
    by (auto simp: path tpl split: prod.splits option.splits if_splits)
qed

lemma SystemvService_Install_content:
  assumes "SystemvService_Install e w svc args = ((msg, None), w')"
  shows "files w' (SystemvService_servicePath svc) =
           Some (fst (template_Execute e (systemVConfig w)
             (SystemvService_data svc
                (fst (executablePath e
                   (w\<lparr>files := (files w)(SystemvService_servicePath svc \<mapsto> [])\<rparr>) svc))
                args)))"
proof -
  obtain r w1 where cp: "checkPrivileges e w = (r, w1)"
    by (cases "checkPrivileges e w")
  then have w1: "w1 = w\<lparr>cmdlog := cmdlog w @ [[''id'', ''-g'']]\<rparr>"
    using checkPrivileges_world [of e w] by simp
  have path: "executablePath e
      (w1\<lparr>files := (files w1)(SystemvService_servicePath svc \<mapsto> [])\<rparr>) svc =
    executablePath e (w\<lparr>files := (files w)(SystemvService_servicePath svc \<mapsto> [])\<rparr>) svc"
    by (rule executablePath_files) (simp add: w1)
  have tpl: "systemVConfig w1 = systemVConfig w"
    by (simp add: w1)
  from assms cp checkPrivileges_not_ok [of e w _ w1] show ?thesis
    unfolding SystemvService_Install_def os_Create_def Template_Execute_def os_Chmod_def Let_def
    by (auto simp: path tpl symlink_each_keeps simp del: symlink_each.simps
        split: prod.splits option.splits if_splits)
qed

lemma DarwinService_Install_content:
  assumes "DarwinService_Install e w svc args = ((msg, None), w')"
  shows "files w' (DarwinService_servicePath svc) =
           Some (fst (template_Execute e (propertyList w)
             (DarwinService_data svc
                (fst (executablePath e
                   (w\<lparr>files := (files w)(DarwinService_servicePath svc \<mapsto> [])\<rparr>) svc))
                args)))"
proof -
  obtain r w1 where cp: "checkPrivileges e w = (r, w1)"
    by (cases "checkPrivileges e w")
  then have w1: "w1 = w\<lparr>cmdlog := cmdlog w @ [[''id'', ''-g'']]\<rparr>"
    using checkPrivileges_world [of e w] by simp
  have path: "executablePath e
      (w1\<lparr>files := (files w1)(DarwinService_servicePath svc \<mapsto> [])\<rparr>) svc =
    executablePath e (w\<lparr>files := (files w)(DarwinService_servicePath svc \<mapsto> [])\<rparr>) svc"
    by (rule executablePath_files) (simp add: w1)
  have tpl: "propertyList w1 = propertyList w"
    by (simp add: w1)
  from assms cp checkPrivileges_not_ok [of e w _ w1] show ?thesis
    unfolding DarwinService_Install_def os_Create_def Template_Execute_def os_Chmod_def Let_def
    by (auto simp: path tpl split: prod.splits option.splits if_splits)
qed

lemma DaemonService_Install_content:
  assumes "DaemonService_Install e w svc args = ((msg, None), w')"
  shows "files w' (DaemonService_servicePath svc) =
           Some (fst (template_Execute e (bsdConfig w)
             (DaemonService_data svc
                (fst (executablePath e
                   (w\<lparr>files := (files w)(DaemonService_servicePath svc \<mapsto> [])\<rparr>) svc))
                args)))"
proof -
  obtain r w1 where cp: "checkPrivileges e w = (r, w1)"
    by (cases "checkPrivileges e w")
  then have w1: "w1 = w\<lparr>cmdlog := cmdlog w @ [[''id'', ''-g'']]\<rparr>"
    using checkPrivileges_world [of e w] by simp
  have path: "executablePath e
      (w1\<lparr>files := (files w1)(DaemonService_servicePath svc \<mapsto> [])\<rparr>) svc =
    executablePath e (w\<lparr>files := (files w)(DaemonService_servicePath svc \<mapsto> [])\<rparr>) svc"
    by (rule executablePath_files) (simp add: w1)
  have tpl: "bsdConfig w1 = bsdConfig w"
    by (simp add: w1)
  from assms cp checkPrivileges_not_ok [of e w _ w1] show ?thesis
    unfolding DaemonService_Install_def os_Create_def Template_Execute_def os_Chmod_def Let_def
    by (auto simp: path tpl split: prod.splits option.splits if_splits)
qed


lemma Install_content:
  assumes "Install d e w args = (Returns (msg, None), w')"
  shows "files w' (servicePath d) =
           Some (fst (template_Execute e (GetTemplate d w)
             (template_data d
                (fst (executablePath e (w\<lparr>files := (files w)(servicePath d \<mapsto> [])\<rparr>)
                   (properties_of d)))
                args)))"
  using assms
  by (cases d)
    (simp_all add: SystemdService_Install_content UpstartService_Install_content
      SystemvService_Install_content DarwinService_Install_content
      DaemonService_Install_content)

lemma template_data_inputs:
  assumes "same_backend d1 d2"
    and "name (properties_of d1) = name (properties_of d2)"
    and "description (properties_of d1) = description (properties_of d2)"
    and "is_systemd d1 \<longrightarrow> dependencies (properties_of d1) = dependencies (properties_of d2)"
  shows "template_data d1 execPatch args = template_data d2 execPatch args"
    and "servicePath d1 = servicePath d2"
    and "GetTemplate d1 = GetTemplate d2"
  using assms
  by (cases d1; cases d2;
      simp add: SystemdService_data_def UpstartService_data_def SystemvService_data_def
        DarwinService_data_def DaemonService_data_def
        SystemdService_servicePath_def UpstartService_servicePath_def
        SystemvService_servicePath_def DarwinService_servicePath_def
        DaemonService_servicePath_def fun_eq_iff)+

lemma printing_check:
  "checkPrivileges printing_host w = ((True, None), w\<lparr>cmdlog := cmdlog w @ [[''id'', ''-g'']]\<rparr>)"
  by (simp add: checkPrivileges_def exec_Output_def printing_host_def sample_defs
      TrimSpace_def space_runes_def ParseUint_def decimal_def is_digit_def)

lemma printing_path:
  assumes "files w ''/usr/bin/sampled'' \<noteq> None"
  shows "executablePath printing_host w (flagged deps) = (''/usr/bin/sampled --flag'', None)"
  using assms
  by (auto simp: executablePath_def os_Stat_def printing_host_def sample_host_def flagged_def)

lemma printing_systemd_Install:
  assumes "files w ''/etc/systemd/system/sampled.service'' = None"
    and "files w ''/usr/bin/sampled'' \<noteq> None"
    and "systemDConfig w = systemDConfig printing_disk"
  shows "Install (SystemdService (flagged deps)) printing_host w [''-v''] =
     (Returns (''Install Sample Daemon:'' @ success, None),
      w\<lparr>files := (files w)(''/etc/systemd/system/sampled.service'' \<mapsto>
          ''Description=Sample Daemon Requires='' @ Join deps '' '' @
          '' PIDFile=/var/run/sampled.pid ExecStart=/usr/bin/sampled --flag -v''),
        cmdlog := cmdlog w @ [[''id'', ''-g''], [''systemctl'', ''daemon-reload''],
          [''systemctl'', ''enable'', ''sampled.service'']]\<rparr>)"
proof -
  have path: "executablePath printing_host
      (w\<lparr>cmdlog := c, files := (files w)(''/etc/systemd/system/sampled.service'' \<mapsto> [])\<rparr>)
      (flagged deps) = (''/usr/bin/sampled --flag'', None)" for c
    using assms(2) by (intro printing_path) simp
  have render: "template_Execute printing_host (systemDConfig printing_disk)
      (SystemdService_data (flagged deps) ''/usr/bin/sampled --flag'' [''-v'']) =
    (''Description=Sample Daemon Requires='' @ Join deps '' '' @
       '' PIDFile=/var/run/sampled.pid ExecStart=/usr/bin/sampled --flag -v'', None)"
    by (simp add: printing_host_def printing_disk_def SystemdService_data_def flagged_def
        emit_def action_value_def)
  have rest: "exec_Command printing_host h [''systemctl'', ''daemon-reload''] = ([], None)"
    "exec_Command printing_host h [''systemctl'', ''enable'', ''sampled.service''] = ([], None)"
    "os_Create_err printing_host q = None" "template_Parse_err printing_host t = None" for h q t
    by (simp_all add: printing_host_def sample_host_def sample_commands_def)
  have nm: "name (flagged deps) = ''sampled''" "description (flagged deps) = ''Sample Daemon''"
    by (simp_all add: flagged_def)
  show ?thesis
    using assms(1,3)
    by (simp add: returned_def SystemdService_Install_def printing_check
        SystemdService_isInstalled_def SystemdService_servicePath_def os_Stat_def
        os_Create_def Template_Execute_def exec_Run_def path render rest nm)
qed

lemma printing_upstart_Install:
  assumes "files w ''/etc/init/sampled.conf'' = None"
    and "files w ''/usr/bin/sampled'' \<noteq> None"
    and "upstatConfig w = upstatConfig printing_disk"
  shows "Install (UpstartService (flagged deps)) printing_host w [''-v''] =
     (Returns (''Install Sample Daemon:'' @ success, None),
      w\<lparr>files := (files w)(''/etc/init/sampled.conf'' \<mapsto>
          ''description Sample Daemon; exec /usr/bin/sampled --flag -v >> /var/log/sampled.log''),
        cmdlog := cmdlog w @ [[''id'', ''-g'']]\<rparr>)"
proof -
  have path: "executablePath printing_host
      (w\<lparr>cmdlog := c, files := (files w)(''/etc/init/sampled.conf'' \<mapsto> [])\<rparr>)
      (flagged deps) = (''/usr/bin/sampled --flag'', None)" for c
    using assms(2) by (intro printing_path) simp
  have render: "template_Execute printing_host (upstatConfig printing_disk)
      (UpstartService_data (flagged deps) ''/usr/bin/sampled --flag'' [''-v'']) =
    (''description Sample Daemon; exec /usr/bin/sampled --flag -v >> /var/log/sampled.log'', None)"
    by (simp add: printing_host_def printing_disk_def UpstartService_data_def flagged_def
        emit_def action_value_def)
  have rest: "os_Create_err printing_host q = None" "template_Parse_err printing_host t = None"
    "os_Chmod_err printing_host q = None" for q t
    by (simp_all add: printing_host_def sample_host_def)
  have nm: "name (flagged deps) = ''sampled''" "description (flagged deps) = ''Sample Daemon''"
    by (simp_all add: flagged_def)
  show ?thesis
    using assms(1,3)
    by (simp add: returned_def UpstartService_Install_def printing_check
        UpstartService_isInstalled_def UpstartService_servicePath_def os_Stat_def
        os_Create_def Template_Execute_def os_Chmod_def path render rest nm)
qed

text \<open>
  C8, the claim as stated: the same name, description, path and arguments give the same
  bytes for every backend. The systemd struct has a fifth field: two descriptors that
  differ only in their dependencies, installed with the same template, the same
  resolved path and the same arguments, get different unit files.
\<close>

theorem systemd_rendering_reads_dependencies:
  "name (flagged [''network'']) = name (flagged [''syslog'']) \<and>
   description (flagged [''network'']) = description (flagged [''syslog'']) \<and>
   executablePath printing_host
     (printing_disk\<lparr>files := (files printing_disk)(''/etc/systemd/system/sampled.service'' \<mapsto> [])\<rparr>)
     (flagged [''network'']) = (''/usr/bin/sampled --flag'', None) \<and>
   executablePath printing_host
     (printing_disk\<lparr>files := (files printing_disk)(''/etc/systemd/system/sampled.service'' \<mapsto> [])\<rparr>)
     (flagged [''syslog'']) = (''/usr/bin/sampled --flag'', None) \<and>
   files (snd (Install (SystemdService (flagged [''network''])) printing_host printing_disk [''-v'']))
     ''/etc/systemd/system/sampled.service'' =
     Some ''Description=Sample Daemon Requires=network PIDFile=/var/run/sampled.pid ExecStart=/usr/bin/sampled --flag -v'' \<and>
   files (snd (Install (SystemdService (flagged [''syslog''])) printing_host printing_disk [''-v'']))
     ''/etc/systemd/system/sampled.service'' =
     Some ''Description=Sample Daemon Requires=syslog PIDFile=/var/run/sampled.pid ExecStart=/usr/bin/sampled --flag -v'' \<and>
   files (snd (Install (SystemdService (flagged [''network''])) printing_host printing_disk [''-v'']))
     ''/etc/systemd/system/sampled.service'' \<noteq>
   files (snd (Install (SystemdService (flagged [''syslog''])) printing_host printing_disk [''-v'']))
     ''/etc/systemd/system/sampled.service''"
proof -
  have disk: "files printing_disk ''/etc/systemd/system/sampled.service'' = None"
    "files printing_disk ''/usr/bin/sampled'' \<noteq> None"
    by (simp_all add: printing_disk_def sample_disk_def)
  have p: "executablePath printing_host
     (printing_disk\<lparr>files := (files printing_disk)(''/etc/systemd/system/sampled.service'' \<mapsto> [])\<rparr>)
     (flagged deps) = (''/usr/bin/sampled --flag'', None)" for deps
    using disk(2) by (intro printing_path) simp
  have network: "files (snd (Install (SystemdService (flagged [''network''])) printing_host
        printing_disk [''-v''])) ''/etc/systemd/system/sampled.service'' =
     Some ''Description=Sample Daemon Requires=network PIDFile=/var/run/sampled.pid ExecStart=/usr/bin/sampled --flag -v''"
    using printing_systemd_Install [OF disk refl, of "[''network'']"] by (simp add: returned_def)
  have syslog: "files (snd (Install (SystemdService (flagged [''syslog''])) printing_host
        printing_disk [''-v''])) ''/etc/systemd/system/sampled.service'' =
     Some ''Description=Sample Daemon Requires=syslog PIDFile=/var/run/sampled.pid ExecStart=/usr/bin/sampled --flag -v''"
    using printing_systemd_Install [OF disk refl, of "[''syslog'']"] by (simp add: returned_def)
  have names: "name (flagged [''network'']) = name (flagged [''syslog''])"
    "description (flagged [''network'']) = description (flagged [''syslog''])"
    by (simp_all add: flagged_def)
  show ?thesis
    unfolding network syslog using names p by simp
qed

text \<open>
  C8, amended. Rendering a backend's template twice with identical name, description,
  path and arguments, and for systemd identical dependencies, gives identical bytes:
  when two descriptors of the same backend agree on these, and their installs with the
  same arguments both succeed, from two states of the host that hold the same template
  text and resolve the same executable path, the descriptor files written have the same
  path and the same content. Nothing else of the descriptors or of the host is read.
\<close>

theorem rendering_deterministic:
  assumes "same_backend d1 d2"
    and "name (properties_of d1) = name (properties_of d2)"
    and "description (properties_of d1) = description (properties_of d2)"
    and "is_systemd d1 \<longrightarrow> dependencies (properties_of d1) = dependencies (properties_of d2)"
    and "Install d1 e w1 args = (Returns (m1, None), w1')"
    and "Install d2 e w2 args = (Returns (m2, None), w2')"
    and "GetTemplate d1 w1 = GetTemplate d2 w2"
    and "fst (executablePath e (w1\<lparr>files := (files w1)(servicePath d1 \<mapsto> [])\<rparr>)
                (properties_of d1)) =
         fst (executablePath e (w2\<lparr>files := (files w2)(servicePath d2 \<mapsto> [])\<rparr>)
                (properties_of d2))"
  shows "servicePath d1 = servicePath d2 \<and>
         files w1' (servicePath d1) = files w2' (servicePath d2)"
  using Install_content [OF assms(5)] Install_content [OF assms(6)] assms(7,8)
    template_data_inputs [OF assms(1-4)]
  by simp

theorem rendering_deterministic_witness:
  "files (snd (Install (UpstartService (flagged [''network''])) printing_host printing_disk [''-v'']))
     ''/etc/init/sampled.conf'' =
     Some ''description Sample Daemon; exec /usr/bin/sampled --flag -v >> /var/log/sampled.log'' \<and>
   files (snd (Install (UpstartService (flagged [''syslog''])) printing_host busy_disk [''-v'']))
     ''/etc/init/sampled.conf'' =
     Some ''description Sample Daemon; exec /usr/bin/sampled --flag -v >> /var/log/sampled.log'' \<and>
   files (snd (Install (SystemdService (flagged [''network''])) printing_host busy_disk [''-v'']))
     ''/etc/systemd/system/sampled.service'' =
     Some ''Description=Sample Daemon Requires=network PIDFile=/var/run/sampled.pid ExecStart=/usr/bin/sampled --flag -v''"
proof -
  let ?u1 = "UpstartService (flagged [''network''])"
  let ?u2 = "UpstartService (flagged [''syslog''])"
  let ?s = "SystemdService (flagged [''network''])"
  have disk: "files printing_disk ''/etc/init/sampled.conf'' = None"
    "files printing_disk ''/etc/systemd/system/sampled.service'' = None"
    "files printing_disk ''/usr/bin/sampled'' \<noteq> None"
    "files busy_disk ''/etc/init/sampled.conf'' = None"
    "files busy_disk ''/etc/systemd/system/sampled.service'' = None"
    "files busy_disk ''/usr/bin/sampled'' \<noteq> None"
    "upstatConfig busy_disk = upstatConfig printing_disk"
    "systemDConfig busy_disk = systemDConfig printing_disk"
    by (simp_all add: busy_disk_def printing_disk_def sample_disk_def)
  have path: "fst (executablePath printing_host (w\<lparr>files := (files w)(q \<mapsto> [])\<rparr>) (flagged deps)) =
      ''/usr/bin/sampled --flag''"
    if "files w ''/usr/bin/sampled'' \<noteq> None" and "q \<noteq> ''/usr/bin/sampled''" for w q deps
    using that by (subst printing_path) simp_all
  define U1 where "U1 = snd (Install ?u1 printing_host printing_disk [''-v''])"
  define U2 where "U2 = snd (Install ?u2 printing_host busy_disk [''-v''])"
  define S1 where "S1 = snd (Install ?s printing_host printing_disk [''-v''])"
  define S2 where "S2 = snd (Install ?s printing_host busy_disk [''-v''])"
  have u1: "Install ?u1 printing_host printing_disk [''-v''] =
      (Returns (''Install Sample Daemon:'' @ success, None), U1)"
    unfolding U1_def
    by (subst (1 2) printing_upstart_Install [OF disk(1) disk(3) refl]) simp
  have u2: "Install ?u2 printing_host busy_disk [''-v''] =
      (Returns (''Install Sample Daemon:'' @ success, None), U2)"
    unfolding U2_def
    by (subst (1 2) printing_upstart_Install [OF disk(4) disk(6) disk(7)]) simp
  have s1: "Install ?s printing_host printing_disk [''-v''] =
      (Returns (''Install Sample Daemon:'' @ success, None), S1)"
    unfolding S1_def
    by (subst (1 2) printing_systemd_Install [OF disk(2) disk(3) refl]) simp
  have s2: "Install ?s printing_host busy_disk [''-v''] =
      (Returns (''Install Sample Daemon:'' @ success, None), S2)"
    unfolding S2_def
    by (subst (1 2) printing_systemd_Install [OF disk(5) disk(6) disk(8)]) simp
  have a: "files U1 ''/etc/init/sampled.conf'' =
     Some ''description Sample Daemon; exec /usr/bin/sampled --flag -v >> /var/log/sampled.log''"
    unfolding U1_def
    by (subst printing_upstart_Install [OF disk(1) disk(3) refl]) simp
  have c: "files S1 ''/etc/systemd/system/sampled.service'' =
     Some ''Description=Sample Daemon Requires=network PIDFile=/var/run/sampled.pid ExecStart=/usr/bin/sampled --flag -v''"
    unfolding S1_def
    by (subst printing_systemd_Install [OF disk(2) disk(3) refl]) simp
  have upstart: "same_backend ?u1 ?u2"
    "name (properties_of ?u1) = name (properties_of ?u2)"
    "description (properties_of ?u1) = description (properties_of ?u2)"
    "is_systemd ?u1 \<longrightarrow> dependencies (properties_of ?u1) = dependencies (properties_of ?u2)"
    "GetTemplate ?u1 printing_disk = GetTemplate ?u2 busy_disk"
    by (simp_all add: flagged_def disk(7))
  have upath: "fst (executablePath printing_host
        (printing_disk\<lparr>files := (files printing_disk)(servicePath ?u1 \<mapsto> [])\<rparr>)
        (properties_of ?u1)) =
      fst (executablePath printing_host
        (busy_disk\<lparr>files := (files busy_disk)(servicePath ?u2 \<mapsto> [])\<rparr>)
        (properties_of ?u2))"
    using path [OF disk(3), of "servicePath ?u1" "[''network'']"]
      path [OF disk(6), of "servicePath ?u2" "[''syslog'']"]
    by (simp add: UpstartService_servicePath_def flagged_def)
  from rendering_deterministic [OF upstart(1-4) u1 u2 upstart(5) upath]
  have "files U1 ''/etc/init/sampled.conf'' = files U2 ''/etc/init/sampled.conf''"
    by (simp add: UpstartService_servicePath_def flagged_def)
  with a have b: "files U2 ''/etc/init/sampled.conf'' =
     Some ''description Sample Daemon; exec /usr/bin/sampled --flag -v >> /var/log/sampled.log''"
    by (simp add: UpstartService_servicePath_def flagged_def)
  have systemd: "same_backend ?s ?s"
    "is_systemd ?s \<longrightarrow> dependencies (properties_of ?s) = dependencies (properties_of ?s)"
    "GetTemplate ?s printing_disk = GetTemplate ?s busy_disk"
    by (simp_all add: disk(8))
  have spath: "fst (executablePath printing_host
        (printing_disk\<lparr>files := (files printing_disk)(servicePath ?s \<mapsto> [])\<rparr>)
        (properties_of ?s)) =
      fst (executablePath printing_host
        (busy_disk\<lparr>files := (files busy_disk)(servicePath ?s \<mapsto> [])\<rparr>)
        (properties_of ?s))"
    using path [OF disk(3), of "servicePath ?s" "[''network'']"]
      path [OF disk(6), of "servicePath ?s" "[''network'']"]
    by (simp add: SystemdService_servicePath_def flagged_def)
  from rendering_deterministic [OF systemd(1) refl refl systemd(2) s1 s2 systemd(3) spath]
  have "files S1 ''/etc/systemd/system/sampled.service'' =
        files S2 ''/etc/systemd/system/sampled.service''"
    by (simp add: SystemdService_servicePath_def flagged_def)
  with c have d: "files S2 ''/etc/systemd/system/sampled.service'' =
     Some ''Description=Sample Daemon Requires=network PIDFile=/var/run/sampled.pid ExecStart=/usr/bin/sampled --flag -v''"
    by (simp add: SystemdService_servicePath_def flagged_def)
  from a b d show ?thesis
    unfolding U1_def U2_def S2_def by blast
qed

end
